theory Spec2Isabelle
  imports Complex_Main
begin

section \<open>Python values and lead dictionaries\<close>

text \<open>
  A raw lead is a Python \<^verbatim>\<open>dict\<close> from field names to nullable strings: this is what both
  adapters build in \<^verbatim>\<open>parse_lead\<close>. A key can be absent (\<open>d k = None\<close>), present with the
  value \<^verbatim>\<open>None\<close> (\<open>d k = Some None\<close>) or present with a string (\<open>d k = Some (Some s)\<close>).
\<close>

type_synonym pystr = "string option"

type_synonym lead = "string \<rightharpoonup> pystr"

text \<open>\<^verbatim>\<open>d.get(k)\<close>: \<^verbatim>\<open>None\<close> when the key is absent.\<close>

definition py_get :: "lead \<Rightarrow> string \<Rightarrow> pystr" where
  "py_get d k = (case d k of None \<Rightarrow> None | Some v \<Rightarrow> v)"

text \<open>\<^verbatim>\<open>d.get(k, default)\<close>: the default only replaces an absent key, not a stored \<^verbatim>\<open>None\<close>.\<close>

definition py_get_default :: "lead \<Rightarrow> string \<Rightarrow> string \<Rightarrow> pystr" where
  "py_get_default d k dflt = (case d k of None \<Rightarrow> Some dflt | Some v \<Rightarrow> v)"

text \<open>Truth value of a nullable string: \<^verbatim>\<open>None\<close> and \<^verbatim>\<open>''\<close> are false.\<close>

definition truthy :: "pystr \<Rightarrow> bool" where
  "truthy v = (case v of None \<Rightarrow> False | Some s \<Rightarrow> s \<noteq> [])"

section \<open>The storage layer (core/db.py)\<close>

text \<open>
  The four tables of \<^verbatim>\<open>_init_db\<close>. A \<^verbatim>\<open>TEXT\<close> column that admits \<^verbatim>\<open>NULL\<close> is a
  \<open>string option\<close> with \<open>None\<close> for \<^verbatim>\<open>NULL\<close>; a \<^verbatim>\<open>NOT NULL\<close> column is a \<open>string\<close>.
  The timestamp columns and the \<^verbatim>\<open>metadata\<close> and \<^verbatim>\<open>score\<close> columns of \<^verbatim>\<open>leads\<close> are left out
  of the rows: they take part in no constraint, and binding them cannot fail for a lead of
  nullable strings. The \<^verbatim>\<open>selectors\<close> column holds the decoded JSON object as an association
  list. SQLite does not enforce the \<^verbatim>\<open>FOREIGN KEY\<close> clauses (the connection never turns
  \<^verbatim>\<open>PRAGMA foreign_keys\<close> on), so they put no condition on any statement below. The
  table \<^verbatim>\<open>scheduled_jobs\<close> is created and deleted from, but no statement of the program
  inserts into it: the jobs the scheduler runs are kept in the scheduler's memory.
\<close>

record source_row =
  src_id :: nat
  src_name :: string
  src_source_type :: string
  src_base_url :: string
  src_pagination_type :: string
  src_selectors :: "(string \<times> string) list"
  src_rate_limit_delay :: real
  src_enabled :: bool

record lead_row =
  lead_id :: nat
  lead_source_id :: nat
  business_name :: string
  city :: "string option"
  state :: "string option"
  phone :: "string option"
  email :: "string option"
  website :: "string option"
  address :: "string option"
  category :: "string option"

record log_row =
  log_id :: nat
  log_source_id :: nat
  log_status :: string
  log_leads_scraped :: nat
  log_error_message :: "string option"

record job_row =
  job_pk :: nat
  job_id :: string
  job_source_id :: nat
  job_schedule_type :: string
  job_schedule_config :: string
  job_max_leads :: "int option"
  job_enabled :: bool

text \<open>
  The database: the rows of each table in insertion order, and for the two tables written
  here the \<^verbatim>\<open>sqlite_sequence\<close> counter that \<^verbatim>\<open>AUTOINCREMENT\<close> keeps.
\<close>

record database =
  sources :: "source_row list"
  leads :: "lead_row list"
  scraper_logs :: "log_row list"
  scheduled_jobs :: "job_row list"
  leads_seq :: nat
  logs_seq :: nat

definition empty_db :: database where
  "empty_db = \<lparr>sources = [], leads = [], scraper_logs = [], scheduled_jobs = [],
     leads_seq = 0, logs_seq = 0\<rparr>"

text \<open>
  \<^verbatim>\<open>INTEGER PRIMARY KEY AUTOINCREMENT\<close>: the new rowid is one more than the largest rowid
  the table has ever held, that is the larger of the sequence counter and the rowids present.
\<close>

definition next_rowid :: "nat \<Rightarrow> nat list \<Rightarrow> nat" where
  "next_rowid seq ids = Suc (fold max ids seq)"

text \<open>\<^verbatim>\<open>load_sources(enabled_only)\<close>.\<close>

definition load_sources :: "database \<Rightarrow> bool \<Rightarrow> source_row list" where
  "load_sources db enabled_only =
     (if enabled_only then filter src_enabled (sources db) else sources db)"

text \<open>\<^verbatim>\<open>delete_source\<close>: four \<^verbatim>\<open>DELETE\<close> statements in one transaction.\<close>

definition delete_source :: "database \<Rightarrow> nat \<Rightarrow> database" where
  "delete_source db source_id =
     db\<lparr>leads := filter (\<lambda>r. lead_source_id r \<noteq> source_id) (leads db),
        scraper_logs := filter (\<lambda>r. log_source_id r \<noteq> source_id) (scraper_logs db),
        scheduled_jobs := filter (\<lambda>r. job_source_id r \<noteq> source_id) (scheduled_jobs db),
        sources := filter (\<lambda>r. src_id r \<noteq> source_id) (sources db)\<rparr>"

text \<open>
  \<^verbatim>\<open>UNIQUE(business_name, city, phone)\<close>. In SQLite a \<^verbatim>\<open>NULL\<close> is distinct from every value
  in a unique index, another \<^verbatim>\<open>NULL\<close> included: a stored row conflicts with the new one only
  when all three columns are equal and neither \<^verbatim>\<open>city\<close> nor \<^verbatim>\<open>phone\<close> is \<^verbatim>\<open>NULL\<close>.
\<close>

definition sql_eq :: "string option \<Rightarrow> string option \<Rightarrow> bool" where
  "sql_eq a b = (case a of None \<Rightarrow> False | Some x \<Rightarrow> (case b of None \<Rightarrow> False | Some y \<Rightarrow> x = y))"

definition unique_conflict :: "string \<Rightarrow> string option \<Rightarrow> string option \<Rightarrow> lead_row \<Rightarrow> bool" where
  "unique_conflict bn c p r = (business_name r = bn \<and> sql_eq (city r) c \<and> sql_eq (phone r) p)"

text \<open>
  \<^verbatim>\<open>save_lead\<close>: \<^verbatim>\<open>INSERT OR IGNORE\<close>. SQLite picks the rowid of the new row before it
  tests the constraints, and an \<^verbatim>\<open>AUTOINCREMENT\<close> table records every rowid picked: the
  sequence counter advances whether or not the row is stored. A row that violates
  \<^verbatim>\<open>NOT NULL\<close> on \<^verbatim>\<open>business_name\<close> or the unique index is skipped without an error; then
  \<^verbatim>\<open>rowcount\<close> is 0 and the method returns \<^verbatim>\<open>None\<close>. Otherwise the row is appended and its
  rowid returned.
\<close>

definition save_lead :: "database \<Rightarrow> nat \<Rightarrow> lead \<Rightarrow> nat option \<times> database" where
  "save_lead db source_id lead_data =
     (let rowid = next_rowid (leads_seq db) (map lead_id (leads db))
      in case py_get_default lead_data ''business_name'' [] of
           None \<Rightarrow> (None, db\<lparr>leads_seq := rowid\<rparr>)
         | Some bn \<Rightarrow>
             if list_ex
                  (unique_conflict bn (py_get lead_data ''city'') (py_get lead_data ''phone''))
                  (leads db)
             then (None, db\<lparr>leads_seq := rowid\<rparr>)
             else
               let row = \<lparr>lead_id = rowid, lead_source_id = source_id, business_name = bn,
                           city = py_get lead_data ''city'', state = py_get lead_data ''state'',
                           phone = py_get lead_data ''phone'', email = py_get lead_data ''email'',
                           website = py_get lead_data ''website'',
                           address = py_get lead_data ''address'',
                           category = py_get lead_data ''category''\<rparr>
               in (Some rowid, db\<lparr>leads := leads db @ [row], leads_seq := rowid\<rparr>))"

text \<open>
  \<^verbatim>\<open>bulk_save_leads\<close>: one \<^verbatim>\<open>save_lead\<close> per lead; \<^verbatim>\<open>if result:\<close> is false for \<^verbatim>\<open>None\<close>
  and for the integer 0.
\<close>

record save_result =
  saved :: nat
  duplicates :: nat

fun bulk_loop :: "database \<Rightarrow> nat \<Rightarrow> lead list \<Rightarrow> save_result \<Rightarrow> save_result \<times> database" where
  "bulk_loop db source_id [] acc = (acc, db)"
| "bulk_loop db source_id (l # ls) acc =
     (case save_lead db source_id l of
        (result, db') \<Rightarrow>
          if (case result of None \<Rightarrow> False | Some i \<Rightarrow> i \<noteq> 0)
          then bulk_loop db' source_id ls (acc\<lparr>saved := saved acc + 1\<rparr>)
          else bulk_loop db' source_id ls (acc\<lparr>duplicates := duplicates acc + 1\<rparr>))"

definition bulk_save_leads :: "database \<Rightarrow> nat \<Rightarrow> lead list \<Rightarrow> save_result \<times> database" where
  "bulk_save_leads db source_id ls = bulk_loop db source_id ls \<lparr>saved = 0, duplicates = 0\<rparr>"

text \<open>\<^verbatim>\<open>count_leads\<close>: \<^verbatim>\<open>if source_id:\<close> is false for \<^verbatim>\<open>None\<close> and for 0, which count every lead.\<close>

definition count_leads :: "database \<Rightarrow> nat option \<Rightarrow> nat" where
  "count_leads db source_id =
     (case source_id of
        None \<Rightarrow> length (leads db)
      | Some s \<Rightarrow> if s = 0 then length (leads db)
                  else length (filter (\<lambda>r. lead_source_id r = s) (leads db)))"

text \<open>\<^verbatim>\<open>start_scrape_log\<close> and \<^verbatim>\<open>update_scrape_log\<close>.\<close>

definition start_scrape_log :: "database \<Rightarrow> nat \<Rightarrow> nat \<times> database" where
  "start_scrape_log db source_id =
     (let rowid = next_rowid (logs_seq db) (map log_id (scraper_logs db));
          row = \<lparr>log_id = rowid, log_source_id = source_id, log_status = ''started'',
                  log_leads_scraped = 0, log_error_message = None\<rparr>
      in (rowid, db\<lparr>scraper_logs := scraper_logs db @ [row], logs_seq := rowid\<rparr>))"

definition update_scrape_log ::
  "database \<Rightarrow> nat \<Rightarrow> string \<Rightarrow> nat \<Rightarrow> string option \<Rightarrow> database" where
  "update_scrape_log db lid status n err =
     db\<lparr>scraper_logs :=
          map (\<lambda>r. if log_id r = lid
                   then r\<lparr>log_status := status, log_leads_scraped := n, log_error_message := err\<rparr>
                   else r)
              (scraper_logs db)\<rparr>"

section \<open>Lead validation (core/base\_scraper.py)\<close>

text \<open>\<^verbatim>\<open>BaseScraper.validate_lead\<close>; neither adapter overrides it.\<close>

definition validate_lead :: "lead \<Rightarrow> bool" where
  "validate_lead l =
     (if \<not> truthy (py_get l ''business_name'') then False
      else if \<not> list_ex truthy [py_get l ''phone'', py_get l ''email'', py_get l ''website'']
      then False
      else True)"

section \<open>The harvest engine (core/engine.py)\<close>

text \<open>
  What \<^verbatim>\<open>scraper.scrape()\<close> gives the engine's \<^verbatim>\<open>for\<close> loop: a generator that yields a
  lead and goes on, ends, or raises an exception (carried as its \<^verbatim>\<open>str(e)\<close>).
\<close>

datatype scrape_stream = StopIteration | Yield lead scrape_stream | Raise string

text \<open>
  The registry maps a \<^verbatim>\<open>source_type\<close> to a scraper class. Calling the class on a source
  configuration either raises (\<open>None\<close>) or builds a scraper, which is modelled by the stream
  its \<^verbatim>\<open>scrape()\<close> produces.
\<close>

type_synonym scraper_class = "source_row \<Rightarrow> scrape_stream option"

type_synonym registry = "string \<rightharpoonup> scraper_class"

definition get_scraper :: "registry \<Rightarrow> source_row \<Rightarrow> scrape_stream option" where
  "get_scraper reg config =
     (case reg (src_source_type config) of
        None \<Rightarrow> None
      | Some scraper_class \<Rightarrow> scraper_class config)"

text \<open>
  The result dictionary of a run that reached the scraping loop, and the two shapes
  \<^verbatim>\<open>run_scraper\<close> returns: \<^verbatim>\<open>{'success': False, 'error': msg}\<close> or the full result.
\<close>

record run_result =
  success :: bool
  leads_scraped :: nat
  leads_saved :: nat
  run_duplicates :: nat
  errors :: "string list"

datatype run_return = ErrorReturn string | Result run_result

definition ret_success :: "run_return \<Rightarrow> bool" where
  "ret_success r = (case r of ErrorReturn _ \<Rightarrow> False | Result res \<Rightarrow> success res)"

definition ret_error :: "run_return \<Rightarrow> string option" where
  "ret_error r = (case r of ErrorReturn msg \<Rightarrow> Some msg | Result _ \<Rightarrow> None)"

definition buffer_size :: nat where
  "buffer_size = 50"

text \<open>\<^verbatim>\<open>max_leads and idx >= max_leads\<close>: \<^verbatim>\<open>None\<close> and 0 are false, so neither sets a cap.\<close>

definition cap_reached :: "int option \<Rightarrow> nat \<Rightarrow> bool" where
  "cap_reached max_leads idx =
     (case max_leads of None \<Rightarrow> False | Some n \<Rightarrow> n \<noteq> 0 \<and> n \<le> int idx)"

text \<open>\<^verbatim>\<open>f"Invalid lead skipped: {lead_data.get('business_name', 'Unknown')}"\<close>.\<close>

definition invalid_msg :: "lead \<Rightarrow> string" where
  "invalid_msg l =
     ''Invalid lead skipped: '' @
       (case py_get_default l ''business_name'' ''Unknown'' of None \<Rightarrow> ''None'' | Some s \<Rightarrow> s)"

definition add_saved :: "run_result \<Rightarrow> save_result \<Rightarrow> run_result" where
  "add_saved res sr =
     res\<lparr>leads_saved := leads_saved res + saved sr,
         run_duplicates := run_duplicates res + duplicates sr\<rparr>"

text \<open>
  The \<^verbatim>\<open>for idx, lead_data in enumerate(scraper.scrape())\<close> loop. It returns the exception
  that left it, if any, with the buffer, the result and the database at that moment. The
  item is taken from the generator before the cap is tested, so a generator that raises when
  asked for item \<open>idx\<close> fails the run even when \<open>idx\<close> is the cap.
\<close>

fun scrape_loop ::
  "nat \<Rightarrow> int option \<Rightarrow> nat \<Rightarrow> scrape_stream \<Rightarrow> lead list \<Rightarrow> run_result \<Rightarrow> database
     \<Rightarrow> string option \<times> lead list \<times> run_result \<times> database" where
  "scrape_loop source_id max_leads idx StopIteration buf res db = (None, buf, res, db)"
| "scrape_loop source_id max_leads idx (Raise e) buf res db = (Some e, buf, res, db)"
| "scrape_loop source_id max_leads idx (Yield lead_data rest) buf res db =
     (if cap_reached max_leads idx then (None, buf, res, db)
      else if \<not> validate_lead lead_data
      then scrape_loop source_id max_leads (Suc idx) rest buf
             (res\<lparr>errors := errors res @ [invalid_msg lead_data]\<rparr>) db
      else if buffer_size \<le> length (buf @ [lead_data])
      then (case bulk_save_leads db source_id (buf @ [lead_data]) of
              (save_result, db') \<Rightarrow>
                scrape_loop source_id max_leads (Suc idx) rest []
                  (add_saved (res\<lparr>leads_scraped := leads_scraped res + 1\<rparr>) save_result) db')
      else scrape_loop source_id max_leads (Suc idx) rest (buf @ [lead_data])
             (res\<lparr>leads_scraped := leads_scraped res + 1\<rparr>) db)"

definition initial_result :: run_result where
  "initial_result =
     \<lparr>success = False, leads_scraped = 0, leads_saved = 0, run_duplicates = 0, errors = []\<rparr>"

text \<open>
  The \<^verbatim>\<open>try\<close> block of \<^verbatim>\<open>run_scraper\<close> with its \<^verbatim>\<open>except\<close> clause: after the loop the rest of
  the buffer is flushed and the log closed as \<^verbatim>\<open>success\<close>; an exception closes the log as
  \<^verbatim>\<open>failed\<close> with the saved count reached so far and leaves the buffer unsaved. The
  \<^verbatim>\<open>finally\<close> clause closes the scraper's HTTP session, which is no part of the state here.
\<close>

definition run_body ::
  "database \<Rightarrow> nat \<Rightarrow> int option \<Rightarrow> nat \<Rightarrow> scrape_stream \<Rightarrow> run_result \<times> database" where
  "run_body db source_id max_leads lid scraper =
     (case scrape_loop source_id max_leads 0 scraper [] initial_result db of
        (None, buf, res, db1) \<Rightarrow>
          (case (if buf \<noteq> []
                 then (case bulk_save_leads db1 source_id buf of
                         (save_result, db2) \<Rightarrow> (add_saved res save_result, db2))
                 else (res, db1)) of
             (res2, db2) \<Rightarrow>
               (res2\<lparr>success := True\<rparr>,
                update_scrape_log db2 lid ''success'' (leads_saved res2) None))
      | (Some e, buf, res, db1) \<Rightarrow>
          (res\<lparr>errors := errors res @ [''Scraping failed: '' @ e]\<rparr>,
           update_scrape_log db1 lid ''failed'' (leads_saved res)
             (Some (''Scraping failed: '' @ e))))"

text \<open>\<^verbatim>\<open>HarvestEngine.run_scraper\<close>.\<close>

definition run_scraper ::
  "registry \<Rightarrow> database \<Rightarrow> nat \<Rightarrow> int option \<Rightarrow> run_return \<times> database" where
  "run_scraper reg db source_id max_leads =
     (case find (\<lambda>s. src_id s = source_id) (load_sources db False) of
        None \<Rightarrow> (ErrorReturn ''Source not found'', db)
      | Some source_config \<Rightarrow>
          if \<not> src_enabled source_config then (ErrorReturn ''Source is disabled'', db)
          else
            (case start_scrape_log db source_id of
               (lid, db0) \<Rightarrow>
                 (case get_scraper reg source_config of
                    None \<Rightarrow>
                      (ErrorReturn ''Scraper not available'',
                       update_scrape_log db0 lid ''failed'' 0 (Some ''Scraper not available''))
                  | Some scraper \<Rightarrow>
                      (case run_body db0 source_id max_leads lid scraper of
                         (res, db') \<Rightarrow> (Result res, db')))))"

section \<open>Parsing one listing element (scrapers/registry.py, scrapers/yellowpages\_pro.py)\<close>

text \<open>
  A listing element is known through \<^verbatim>\<open>select_one\<close> alone: for a selector it raises, finds
  nothing, or finds a tag, of which the adapters read the stripped text and attributes.
\<close>

record tag =
  get_text :: string
  attrs :: "(string \<times> string) list"

datatype select_result = SelectRaises | NotFound | Found tag

type_synonym element = "string \<Rightarrow> select_result"

text \<open>\<^verbatim>\<open>ExampleDirectScraper._extract_text\<close> and \<^verbatim>\<open>_extract_attr\<close>; the selector is
  \<^verbatim>\<open>self.selectors.get(field)\<close>, and \<^verbatim>\<open>not selector\<close> holds for \<^verbatim>\<open>None\<close> and \<^verbatim>\<open>''\<close>.\<close>

definition extract_text :: "element \<Rightarrow> string option \<Rightarrow> pystr" where
  "extract_text element selector =
     (case selector of
        None \<Rightarrow> None
      | Some sel \<Rightarrow>
          if sel = [] then None
          else (case element sel of
                  SelectRaises \<Rightarrow> None
                | NotFound \<Rightarrow> None
                | Found t \<Rightarrow> Some (get_text t)))"

definition extract_attr :: "element \<Rightarrow> string option \<Rightarrow> string \<Rightarrow> pystr" where
  "extract_attr element selector attr =
     (case selector of
        None \<Rightarrow> None
      | Some sel \<Rightarrow>
          if sel = [] then None
          else (case element sel of
                  SelectRaises \<Rightarrow> None
                | NotFound \<Rightarrow> None
                | Found t \<Rightarrow> map_of (attrs t) attr))"

text \<open>\<^verbatim>\<open>ExampleDirectScraper.parse_lead\<close>: no call in its \<^verbatim>\<open>try\<close> block can raise, so it
  always returns the dictionary.\<close>

definition example_parse_lead :: "(string \<times> string) list \<Rightarrow> element \<Rightarrow> lead option" where
  "example_parse_lead selectors element =
     Some [''business_name'' \<mapsto> extract_text element (map_of selectors ''business_name''),
           ''phone'' \<mapsto> extract_text element (map_of selectors ''phone''),
           ''email'' \<mapsto> extract_text element (map_of selectors ''email''),
           ''website'' \<mapsto> extract_attr element (map_of selectors ''website'') ''href'',
           ''address'' \<mapsto> extract_text element (map_of selectors ''address''),
           ''city'' \<mapsto> extract_text element (map_of selectors ''city''),
           ''state'' \<mapsto> extract_text element (map_of selectors ''state''),
           ''category'' \<mapsto> extract_text element (map_of selectors ''category'')]"

text \<open>\<^verbatim>\<open>phone_elem.get_text(strip=True) if phone_elem else None\<close>.\<close>

definition text_or_none :: "select_result \<Rightarrow> pystr" where
  "text_or_none r = (case r of Found t \<Rightarrow> Some (get_text t) | _ \<Rightarrow> None)"

text \<open>\<^verbatim>\<open>YellowPagesProScraper.parse_lead\<close>: the bare \<^verbatim>\<open>except\<close> turns any exception of the
  four \<^verbatim>\<open>select_one\<close> calls into \<^verbatim>\<open>None\<close>.\<close>

definition yellowpages_parse_lead :: "element \<Rightarrow> lead option" where
  "yellowpages_parse_lead element =
     (case element ''.business-name, h2.business-name, h2 a'' of
        SelectRaises \<Rightarrow> None
      | NotFound \<Rightarrow> None
      | Found name_elem \<Rightarrow>
          if element ''.phones, .phone'' = SelectRaises
             \<or> element ''.locality'' = SelectRaises
             \<or> element ''.region'' = SelectRaises
          then None
          else Some [''business_name'' \<mapsto> Some (get_text name_elem),
                     ''phone'' \<mapsto> text_or_none (element ''.phones, .phone''),
                     ''city'' \<mapsto> text_or_none (element ''.locality''),
                     ''state'' \<mapsto> text_or_none (element ''.region''),
                     ''category'' \<mapsto> Some ''Yellow Pages''])"

section \<open>Rate limiting (utils/anti\_detection.py, core/base\_scraper.py)\<close>

text \<open>
  \<^verbatim>\<open>AntiDetection.jitter_delay\<close>, with the value drawn by \<^verbatim>\<open>random.uniform(-1, 2)\<close> as the
  argument \<open>u\<close>. Delays are real numbers here; the clamp only compares and selects.
\<close>

definition jitter_delay :: "real \<Rightarrow> real \<Rightarrow> real \<Rightarrow> real \<Rightarrow> real" where
  "jitter_delay base_delay min_delay max_delay u =
     max min_delay (min max_delay (base_delay + u))"

text \<open>\<^verbatim>\<open>AntiDetection.smart_sleep\<close>: the time slept, \<^verbatim>\<open>jitter_delay\<close> with its default bounds.\<close>

definition smart_sleep :: "real \<Rightarrow> real \<Rightarrow> real" where
  "smart_sleep base_delay u = jitter_delay base_delay 2 7 u"

text \<open>
  \<^verbatim>\<open>BaseScraper._make_request\<close>. The outcome of \<^verbatim>\<open>session.request\<close> followed by
  \<^verbatim>\<open>raise_for_status\<close> is a response or a \<^verbatim>\<open>RequestException\<close>; the state is the list of
  the times slept so far. \<^verbatim>\<open>self.rate_limit_delay\<close> is read from the source configuration.
\<close>

datatype fetch_outcome = Response string | RequestException string

definition make_request ::
  "source_row \<Rightarrow> fetch_outcome \<Rightarrow> real \<Rightarrow> real list \<Rightarrow> string option \<times> real list" where
  "make_request config outcome u sleeps =
     (case outcome of
        Response body \<Rightarrow> (Some body, sleeps @ [smart_sleep (src_rate_limit_delay config) u])
      | RequestException _ \<Rightarrow> (None, sleeps))"

section \<open>The scheduler and the deletion of a source (core/scheduler.py, app.py)\<close>

text \<open>\<^verbatim>\<open>str(n)\<close> for a source id: its decimal digits.\<close>

definition digit_char :: "nat \<Rightarrow> char" where
  "digit_char d = ''0123456789'' ! d"

function str_nat :: "nat \<Rightarrow> string" where
  "str_nat n = (if n < 10 then [digit_char n] else str_nat (n div 10) @ [digit_char (n mod 10)])"
  by pat_completeness auto
termination
  by (relation "measure (\<lambda>n. n)") auto

text \<open>
  \<^verbatim>\<open>HarvestScheduler\<close>. Its \<^verbatim>\<open>jobs\<close> dictionary maps a job id to the job's description, kept
  here in insertion order; \<open>sched_jobs\<close> is the job list of the \<^verbatim>\<open>schedule\<close> library, which
  holds for every registered job the arguments \<^verbatim>\<open>_run_with_error_handling\<close> will be called
  with. Creation time and next run are left out.
\<close>

record job_info =
  info_source_id :: nat
  info_max_leads :: "int option"
  info_schedule :: string

record scheduler =
  sched_jobs :: "(nat \<times> int option \<times> string) list"
  jobs :: "(string \<times> job_info) list"

definition empty_scheduler :: scheduler where
  "empty_scheduler = \<lparr>sched_jobs = [], jobs = []\<rparr>"

text \<open>\<^verbatim>\<open>d[k] = v\<close>: a key already present keeps its place.\<close>

fun dict_set :: "('k \<times> 'v) list \<Rightarrow> 'k \<Rightarrow> 'v \<Rightarrow> ('k \<times> 'v) list" where
  "dict_set [] k v = [(k, v)]"
| "dict_set ((k', v') # xs) k v = (if k' = k then (k, v) # xs else (k', v') # dict_set xs k v)"

text \<open>
  \<^verbatim>\<open>add_daily_job\<close>. The \<^verbatim>\<open>schedule\<close> library is not part of the repository: \<open>at_accepts\<close>
  says which time strings its \<^verbatim>\<open>at\<close> takes; for any other it raises before anything is
  stored (\<open>None\<close>).
\<close>

definition add_daily_job ::
  "(string \<Rightarrow> bool) \<Rightarrow> scheduler \<Rightarrow> nat \<Rightarrow> string \<Rightarrow> int option
     \<Rightarrow> (string \<times> scheduler) option" where
  "add_daily_job at_accepts s source_id time_str max_leads =
     (let job_id = ''daily_'' @ str_nat source_id @ ''_''
                     @ filter (\<lambda>c. c \<noteq> CHR '':'') time_str
      in if at_accepts time_str
         then Some (job_id,
                s\<lparr>sched_jobs := sched_jobs s @ [(source_id, max_leads, job_id)],
                  jobs := dict_set (jobs s) job_id
                    \<lparr>info_source_id = source_id, info_max_leads = max_leads,
                     info_schedule = ''Daily at '' @ time_str\<rparr>\<rparr>)
         else None)"

text \<open>\<^verbatim>\<open>get_jobs\<close>: every entry of the dictionary.\<close>

definition get_jobs :: "scheduler \<Rightarrow> (string \<times> job_info) list" where
  "get_jobs s = jobs s"

text \<open>
  The dashboard keeps the database manager and the scheduler in its session state. Its
  ``Delete Source'' button calls \<^verbatim>\<open>db.delete_source(source['id'])\<close> and nothing else.
\<close>

record app_state =
  app_db :: database
  app_scheduler :: scheduler

definition delete_source_button :: "app_state \<Rightarrow> nat \<Rightarrow> app_state" where
  "delete_source_button st source_id = st\<lparr>app_db := delete_source (app_db st) source_id\<rparr>"

section \<open>What a run takes from the adapter\<close>

text \<open>
  Two readings of the engine's loop, used to state what a run does: the leads the loop body
  handles before the stream ends, raises or reaches the cap, and the exception, if any, that
  ends the loop.
\<close>

fun processed :: "int option \<Rightarrow> nat \<Rightarrow> scrape_stream \<Rightarrow> lead list" where
  "processed max_leads idx StopIteration = []"
| "processed max_leads idx (Raise e) = []"
| "processed max_leads idx (Yield lead_data rest) =
     (if cap_reached max_leads idx then [] else lead_data # processed max_leads (Suc idx) rest)"

fun raised :: "int option \<Rightarrow> nat \<Rightarrow> scrape_stream \<Rightarrow> string option" where
  "raised max_leads idx StopIteration = None"
| "raised max_leads idx (Raise e) = Some e"
| "raised max_leads idx (Yield lead_data rest) =
     (if cap_reached max_leads idx then None else raised max_leads (Suc idx) rest)"

text \<open>The number of buffered leads already handed to \<^verbatim>\<open>bulk_save_leads\<close> once \<open>n\<close> valid
  leads have been buffered: the buffer is flushed at every multiple of its size.\<close>

definition flush_point :: "nat \<Rightarrow> nat" where
  "flush_point n = (n div buffer_size) * buffer_size"

text \<open>The validation rule read on a stored row.\<close>

definition valid_row :: "lead_row \<Rightarrow> bool" where
  "valid_row r = (business_name r \<noteq> [] \<and> list_ex truthy [phone r, email r, website r])"

text \<open>
  When every lead of a list is saved rather than ignored: each has a business name other
  than \<^verbatim>\<open>None\<close>, and its key (business name, city, phone) meets the unique index neither
  on a stored row nor on a later lead of the list.
\<close>

definition key_conflict :: "lead \<Rightarrow> lead \<Rightarrow> bool" where
  "key_conflict l l' =
     (py_get_default l ''business_name'' [] = py_get_default l' ''business_name'' []
      \<and> sql_eq (py_get l ''city'') (py_get l' ''city'')
      \<and> sql_eq (py_get l ''phone'') (py_get l' ''phone''))"

definition lead_conflicts_row :: "lead \<Rightarrow> lead_row \<Rightarrow> bool" where
  "lead_conflicts_row l r =
     (case py_get_default l ''business_name'' [] of
        None \<Rightarrow> False
      | Some bn \<Rightarrow> unique_conflict bn (py_get l ''city'') (py_get l ''phone'') r)"

fun all_new :: "lead_row list \<Rightarrow> lead list \<Rightarrow> bool" where
  "all_new rows [] = True"
| "all_new rows (l # ls) =
     (py_get_default l ''business_name'' [] \<noteq> None
      \<and> \<not> list_ex (lead_conflicts_row l) rows
      \<and> \<not> list_ex (key_conflict l) ls
      \<and> all_new rows ls)"

section \<open>The proxy-rotating request path (scrapers/yellowpages\_pro.py)\<close>

text \<open>
  \<^verbatim>\<open>YellowPagesProScraper._make_request_with_rotation\<close>. What the network does is given per
  attempt: whether \<^verbatim>\<open>get_working_proxy\<close> finds a proxy, and whether \<^verbatim>\<open>requests.get\<close> returns a
  response (its status code and body) or raises. \<open>draw\<close> is the value of
  \<^verbatim>\<open>random.uniform(3, 7)\<close> in \<^verbatim>\<open>human_delay(3, 7)\<close>, \<open>current_proxy\<close> says whether the scraper
  holds a proxy, and the state is again the list of the times slept. The method reads
  nothing of the source configuration.
\<close>

datatype get_outcome = StatusCode nat string | GetRaises

function make_request_with_rotation ::
  "(nat \<Rightarrow> bool) \<Rightarrow> (nat \<Rightarrow> get_outcome) \<Rightarrow> real \<Rightarrow> bool \<Rightarrow> nat \<Rightarrow> real list
     \<Rightarrow> string option \<times> real list" where
  "make_request_with_rotation proxy_found outcome draw current_proxy attempt sleeps =
     (if 5 < attempt then (None, sleeps)
      else if (\<not> current_proxy \<or> 1 < attempt) \<and> \<not> proxy_found attempt then (None, sleeps)
      else (case outcome attempt of
              StatusCode code body \<Rightarrow>
                if code = 403
                then make_request_with_rotation proxy_found outcome draw True (attempt + 1)
                       (sleeps @ [3])
                else if code = 200 then (Some body, sleeps @ [draw])
                else make_request_with_rotation proxy_found outcome draw True (attempt + 1)
                       (sleeps @ [2])
            | GetRaises \<Rightarrow>
                make_request_with_rotation proxy_found outcome draw True (attempt + 1)
                  (sleeps @ [2])))"
  by pat_completeness auto
termination
  by (relation "measure (\<lambda>(proxy_found, outcome, draw, current_proxy, attempt, sleeps). 6 - attempt)")
     auto

section \<open>Example data\<close>

definition lead_A1 :: lead where
  "lead_A1 = [''business_name'' \<mapsto> Some ''A'', ''phone'' \<mapsto> Some ''1'']"

definition lead_noname :: lead where
  "lead_noname = [''city'' \<mapsto> Some ''X'', ''phone'' \<mapsto> Some ''1'']"

definition demo_source :: "nat \<Rightarrow> bool \<Rightarrow> source_row" where
  "demo_source i en =
     \<lparr>src_id = i, src_name = ''demo'', src_source_type = ''example_direct'',
      src_base_url = ''http://example.com'', src_pagination_type = ''direct'',
      src_selectors = [(''business_name'', ''.name'')], src_rate_limit_delay = 3,
      src_enabled = en\<rparr>"

definition demo_lead_row :: "nat \<Rightarrow> nat \<Rightarrow> lead_row" where
  "demo_lead_row i s =
     \<lparr>lead_id = i, lead_source_id = s, business_name = ''A'', city = None, state = None,
      phone = Some ''1'', email = None, website = None, address = None, category = None\<rparr>"

definition demo_db :: database where
  "demo_db =
     \<lparr>sources = [demo_source 1 True, demo_source 2 False],
      leads = [demo_lead_row 1 1, demo_lead_row 2 2, demo_lead_row 3 1],
      scraper_logs =
        [\<lparr>log_id = 1, log_source_id = 1, log_status = ''success'', log_leads_scraped = 2,
          log_error_message = None\<rparr>,
         \<lparr>log_id = 2, log_source_id = 2, log_status = ''success'', log_leads_scraped = 1,
          log_error_message = None\<rparr>],
      scheduled_jobs = [],
      leads_seq = 3, logs_seq = 2\<rparr>"

definition lead_B :: lead where
  "lead_B = [''business_name'' \<mapsto> Some ''B'', ''email'' \<mapsto> Some ''b@x.com'']"

definition lead_bad :: lead where
  "lead_bad = [''business_name'' \<mapsto> Some ''C'', ''city'' \<mapsto> Some ''X'']"

definition demo_stream :: scrape_stream where
  "demo_stream = Yield lead_A1 (Yield lead_bad (Yield lead_B (Yield lead_A1 StopIteration)))"

definition demo_registry :: registry where
  "demo_registry = [''example_direct'' \<mapsto> (\<lambda>config. Some demo_stream)]"

definition lead_X :: lead where
  "lead_X = [''business_name'' \<mapsto> Some ''A'', ''city'' \<mapsto> Some ''X'', ''phone'' \<mapsto> Some ''1'']"

definition numbered_lead :: "nat \<Rightarrow> lead" where
  "numbered_lead n =
     [''business_name'' \<mapsto> Some (replicate (Suc n) CHR ''a''), ''city'' \<mapsto> Some ''X'',
      ''phone'' \<mapsto> Some ''1'']"

definition raising_stream :: "lead list \<Rightarrow> scrape_stream" where
  "raising_stream ls = foldr Yield ls (Raise ''boom'')"

definition raising_registry :: "lead list \<Rightarrow> registry" where
  "raising_registry ls = [''example_direct'' \<mapsto> (\<lambda>config. Some (raising_stream ls))]"

definition fresh_leads :: "lead list" where
  "fresh_leads = map numbered_lead [0..<60]"

definition lead_null_name :: lead where
  "lead_null_name = [''business_name'' \<mapsto> None, ''phone'' \<mapsto> Some ''1'']"

definition lead_B_noname :: lead where
  "lead_B_noname = [''city'' \<mapsto> Some ''X'', ''email'' \<mapsto> None]"

definition empty_element :: element where
  "empty_element = (\<lambda>selector. NotFound)"

definition name_tag :: tag where
  "name_tag = \<lparr>get_text = ''Acme'', attrs = []\<rparr>"

definition named_element :: element where
  "named_element =
     (\<lambda>selector. if selector = ''.business-name, h2.business-name, h2 a'' then Found name_tag
                 else if selector = ''.name'' then Found name_tag
                 else if selector = ''.bad['' then SelectRaises
                 else NotFound)"

definition demo_selectors :: "(string \<times> string) list" where
  "demo_selectors = [(''business_name'', ''.name''), (''phone'', ''.bad[''), (''email'', '''')]"

definition raising_element :: element where
  "raising_element =
     (\<lambda>selector. if selector = ''.business-name, h2.business-name, h2 a'' then Found name_tag
                 else if selector = ''.locality'' then SelectRaises
                 else NotFound)"

definition demo_scheduler :: scheduler where
  "demo_scheduler =
     \<lparr>sched_jobs = [(1, None, ''daily_1_0900'')],
      jobs = [(''daily_1_0900'',
               \<lparr>info_source_id = 1, info_max_leads = None, info_schedule = ''Daily at 09:00''\<rparr>)]\<rparr>"

section \<open>Row identifiers\<close>

lemma fold_max_ge: "a \<le> fold max xs (a::nat)"
  by (induction xs arbitrary: a) (auto intro: order_trans[OF max.cobounded2])

lemma fold_max_mem: "x \<in> set xs \<Longrightarrow> x \<le> fold max xs (a::nat)"
proof (induction xs arbitrary: a)
  case Nil
  then show ?case by simp
next
  case (Cons y ys)
  show ?case
  proof (cases "x = y")
    case True
    have "y \<le> max y a" by simp
    also have "\<dots> \<le> fold max ys (max y a)" by (rule fold_max_ge)
    finally show ?thesis using True by simp
  next
    case False
    with Cons show ?thesis by simp
  qed
qed

lemma next_rowid_fresh: "next_rowid seq ids \<notin> set ids"
  using fold_max_mem[of "next_rowid seq ids" ids seq] by (auto simp: next_rowid_def)

lemma next_rowid_pos: "next_rowid seq ids \<noteq> 0"
  by (simp add: next_rowid_def)

section \<open>Deleting a source\<close>

text \<open>
  What \<open>delete_source db sid\<close> does to the four tables: no row of source \<open>sid\<close> is left in
  any of them, and for every other source \<open>t\<close> the rows of \<open>t\<close> in each table are the ones
  that were there before, in the same order.
\<close>

lemma delete_source_tables:
  "filter (\<lambda>r. lead_source_id r = sid) (leads (delete_source db sid)) = []
   \<and> filter (\<lambda>r. log_source_id r = sid) (scraper_logs (delete_source db sid)) = []
   \<and> filter (\<lambda>r. job_source_id r = sid) (scheduled_jobs (delete_source db sid)) = []
   \<and> filter (\<lambda>r. src_id r = sid) (sources (delete_source db sid)) = []
   \<and> (t \<noteq> sid \<longrightarrow>
        filter (\<lambda>r. lead_source_id r = t) (leads (delete_source db sid))
          = filter (\<lambda>r. lead_source_id r = t) (leads db)
        \<and> filter (\<lambda>r. log_source_id r = t) (scraper_logs (delete_source db sid))
          = filter (\<lambda>r. log_source_id r = t) (scraper_logs db)
        \<and> filter (\<lambda>r. job_source_id r = t) (scheduled_jobs (delete_source db sid))
          = filter (\<lambda>r. job_source_id r = t) (scheduled_jobs db)
        \<and> filter (\<lambda>r. src_id r = t) (sources (delete_source db sid))
          = filter (\<lambda>r. src_id r = t) (sources db))"
  by (auto simp: delete_source_def filter_empty_conv intro!: filter_cong)

text \<open>The scheduler is out of the reach of a deletion: its jobs are what they were.\<close>

lemma delete_source_button_scheduler:
  "get_jobs (app_scheduler (delete_source_button st sid)) = get_jobs (app_scheduler st)
   \<and> sched_jobs (app_scheduler (delete_source_button st sid)) = sched_jobs (app_scheduler st)
   \<and> app_db (delete_source_button st sid) = delete_source (app_db st) sid"
  by (simp add: delete_source_button_def)

text \<open>
  Claim C6, at the input where the code departs from it. A daily job at \<^verbatim>\<open>09:00\<close> is
  scheduled for source 1 of the example database, which gives the job \<^verbatim>\<open>daily_1_0900\<close>,
  and the source is deleted. Its source row, leads and logs are gone and the rows of source
  2 are untouched, but the job of source 1 is still listed by \<^verbatim>\<open>get_jobs\<close> and still
  registered to run.
\<close>

theorem delete_source_leaves_scheduled_job:
  "add_daily_job (\<lambda>t. t = ''09:00'') empty_scheduler 1 ''09:00'' None
     = Some (''daily_1_0900'', demo_scheduler)
   \<and> find (\<lambda>r. src_id r = 1)
        (sources (app_db (delete_source_button
           \<lparr>app_db = demo_db, app_scheduler = demo_scheduler\<rparr> 1))) = None
   \<and> map lead_id (leads (app_db (delete_source_button
        \<lparr>app_db = demo_db, app_scheduler = demo_scheduler\<rparr> 1))) = [2]
   \<and> map log_id (scraper_logs (app_db (delete_source_button
        \<lparr>app_db = demo_db, app_scheduler = demo_scheduler\<rparr> 1))) = [2]
   \<and> map fst (get_jobs (app_scheduler (delete_source_button
        \<lparr>app_db = demo_db, app_scheduler = demo_scheduler\<rparr> 1))) = [''daily_1_0900'']
   \<and> map (\<lambda>j. info_source_id (snd j)) (get_jobs (app_scheduler (delete_source_button
        \<lparr>app_db = demo_db, app_scheduler = demo_scheduler\<rparr> 1))) = [1]
   \<and> sched_jobs (app_scheduler (delete_source_button
        \<lparr>app_db = demo_db, app_scheduler = demo_scheduler\<rparr> 1)) = [(1, None, ''daily_1_0900'')]"
  by (simp add: add_daily_job_def empty_scheduler_def demo_scheduler_def digit_char_def
      delete_source_button_def delete_source_def get_jobs_def demo_db_def demo_source_def
      demo_lead_row_def Let_def)

section \<open>Saving leads\<close>

text \<open>
  Claim C1, at the input where the code departs from it. The lead
  \<^verbatim>\<open>{'business_name': 'A', 'phone': '1'}\<close> has no city, so its row holds \<^verbatim>\<open>NULL\<close> there and
  the unique index never matches it: saved twice into an empty database, both saves return
  a new id, the table holds two rows, and \<^verbatim>\<open>bulk_save_leads\<close> counts two saved leads and no
  duplicate.
\<close>

theorem save_lead_null_city_saved_twice:
  "fst (save_lead empty_db 1 lead_A1) = Some 1
   \<and> fst (save_lead (snd (save_lead empty_db 1 lead_A1)) 1 lead_A1) = Some 2
   \<and> count_leads (snd (save_lead (snd (save_lead empty_db 1 lead_A1)) 1 lead_A1)) None = 2
   \<and> fst (bulk_save_leads empty_db 1 [lead_A1, lead_A1]) = \<lparr>saved = 2, duplicates = 0\<rparr>"
  by (simp add: save_lead_def empty_db_def lead_A1_def py_get_def py_get_default_def
      next_rowid_def count_leads_def unique_conflict_def sql_eq_def Let_def bulk_save_leads_def)

text \<open>
  Where the unique index does apply: a lead whose business name, city and phone are all
  present is ignored by every save that follows its first.
\<close>

lemma save_lead_again_is_duplicate:
  assumes "py_get_default l ''business_name'' [] = Some bn"
    and "py_get l ''city'' = Some c" and "py_get l ''phone'' = Some p"
  shows "fst (save_lead (snd (save_lead db sid l)) sid' l) = None
     \<and> leads (snd (save_lead (snd (save_lead db sid l)) sid' l))
         = leads (snd (save_lead db sid l))"
proof (cases "list_ex (unique_conflict bn (Some c) (Some p)) (leads db)")
  case True
  then show ?thesis using assms by (simp add: save_lead_def Let_def)
next
  case False
  then show ?thesis
    using assms by (simp add: save_lead_def Let_def unique_conflict_def sql_eq_def)
qed

section \<open>Bulk saving\<close>

lemma save_lead_other_tables:
  "sources (snd (save_lead db sid l)) = sources db
   \<and> scraper_logs (snd (save_lead db sid l)) = scraper_logs db
   \<and> scheduled_jobs (snd (save_lead db sid l)) = scheduled_jobs db
   \<and> logs_seq (snd (save_lead db sid l)) = logs_seq db"
  by (simp add: save_lead_def Let_def split: option.splits)

lemma save_lead_result:
  "save_lead db sid l = (r, db') \<Longrightarrow>
     leads_seq db' = next_rowid (leads_seq db) (map lead_id (leads db))
     \<and> ((r = None \<and> leads db' = leads db)
        \<or> (r = Some (next_rowid (leads_seq db) (map lead_id (leads db)))
           \<and> length (leads db') = Suc (length (leads db))))"
  by (auto simp: save_lead_def Let_def split: option.splits if_splits)

lemma bulk_loop_append:
  "bulk_loop db sid (xs @ ys) acc =
     (case bulk_loop db sid xs acc of (acc', db') \<Rightarrow> bulk_loop db' sid ys acc')"
  by (induction xs arbitrary: db acc) (auto split: prod.splits)

lemma bulk_loop_acc:
  "bulk_loop db sid xs \<lparr>saved = s, duplicates = d\<rparr> =
     (\<lparr>saved = s + saved (fst (bulk_save_leads db sid xs)),
       duplicates = d + duplicates (fst (bulk_save_leads db sid xs))\<rparr>,
      snd (bulk_save_leads db sid xs))"
proof (induction xs arbitrary: db s d)
  case Nil
  show ?case by (simp add: bulk_save_leads_def)
next
  case (Cons l ls)
  obtain r db' where sl: "save_lead db sid l = (r, db')" by force
  show ?case
  proof (cases "case r of None \<Rightarrow> False | Some i \<Rightarrow> i \<noteq> 0")
    case True
    have 1: "bulk_loop db sid (l # ls) \<lparr>saved = s, duplicates = d\<rparr>
               = bulk_loop db' sid ls \<lparr>saved = s + 1, duplicates = d\<rparr>"
      using sl True by simp
    have 2: "bulk_save_leads db sid (l # ls) = bulk_loop db' sid ls \<lparr>saved = 0 + 1, duplicates = 0\<rparr>"
      using sl True by (simp add: bulk_save_leads_def)
    show ?thesis unfolding 1 2 Cons.IH by simp
  next
    case False
    have 1: "bulk_loop db sid (l # ls) \<lparr>saved = s, duplicates = d\<rparr>
               = bulk_loop db' sid ls \<lparr>saved = s, duplicates = d + 1\<rparr>"
      using sl False by simp
    have 2: "bulk_save_leads db sid (l # ls) = bulk_loop db' sid ls \<lparr>saved = 0, duplicates = 0 + 1\<rparr>"
      using sl False by (simp add: bulk_save_leads_def)
    show ?thesis unfolding 1 2 Cons.IH by simp
  qed
qed

lemma bulk_save_leads_append:
  "bulk_save_leads db sid (xs @ ys) =
     (\<lparr>saved = saved (fst (bulk_save_leads db sid xs))
                + saved (fst (bulk_save_leads (snd (bulk_save_leads db sid xs)) sid ys)),
       duplicates = duplicates (fst (bulk_save_leads db sid xs))
                + duplicates (fst (bulk_save_leads (snd (bulk_save_leads db sid xs)) sid ys))\<rparr>,
      snd (bulk_save_leads (snd (bulk_save_leads db sid xs)) sid ys))"
proof -
  obtain a db' where x: "bulk_save_leads db sid xs = (a, db')" by force
  have "bulk_save_leads db sid (xs @ ys) = bulk_loop db' sid ys a"
    using x by (simp add: bulk_save_leads_def bulk_loop_append)
  also have "a = \<lparr>saved = saved a, duplicates = duplicates a\<rparr>" by simp
  finally show ?thesis using x by (simp add: bulk_loop_acc)
qed

lemma bulk_save_leads_Nil: "bulk_save_leads db sid [] = (\<lparr>saved = 0, duplicates = 0\<rparr>, db)"
  by (simp add: bulk_save_leads_def)

lemma bulk_save_leads_total:
  "saved (fst (bulk_save_leads db sid xs)) + duplicates (fst (bulk_save_leads db sid xs)) = length xs"
proof (induction xs arbitrary: db)
  case Nil
  show ?case by (simp add: bulk_save_leads_Nil)
next
  case (Cons l ls)
  have "bulk_save_leads db sid (l # ls) = bulk_save_leads db sid ([l] @ ls)" by simp
  also note bulk_save_leads_append
  finally show ?case
    using Cons.IH[of "snd (bulk_save_leads db sid [l])"]
    by (simp add: bulk_save_leads_def split: prod.splits if_splits)
qed


lemma save_lead_truthy:
  "(case fst (save_lead db sid l) of None \<Rightarrow> False | Some i \<Rightarrow> i \<noteq> 0)
     = (fst (save_lead db sid l) \<noteq> None)"
  by (simp add: save_lead_def Let_def next_rowid_def split: option.splits)

lemma bulk_save_leads_Cons:
  "bulk_save_leads db sid (l # ls) =
     (\<lparr>saved = (if fst (save_lead db sid l) \<noteq> None then 1 else 0)
                + saved (fst (bulk_save_leads (snd (save_lead db sid l)) sid ls)),
       duplicates = (if fst (save_lead db sid l) \<noteq> None then 0 else 1)
                + duplicates (fst (bulk_save_leads (snd (save_lead db sid l)) sid ls))\<rparr>,
      snd (bulk_save_leads (snd (save_lead db sid l)) sid ls))"
proof -
  obtain r db' where sl: "save_lead db sid l = (r, db')" by force
  have t: "(case r of None \<Rightarrow> False | Some i \<Rightarrow> i \<noteq> 0) = (r \<noteq> None)"
    using save_lead_truthy[of db sid l] sl by simp
  have "bulk_save_leads db sid (l # ls) =
          (if r \<noteq> None then bulk_loop db' sid ls \<lparr>saved = 1, duplicates = 0\<rparr>
           else bulk_loop db' sid ls \<lparr>saved = 0, duplicates = 1\<rparr>)"
    unfolding bulk_save_leads_def using sl t by simp
  then show ?thesis
    using sl by (simp add: bulk_loop_acc)
qed

lemma validate_lead_iff:
  "validate_lead l =
     (truthy (py_get l ''business_name'')
      \<and> (truthy (py_get l ''phone'') \<or> truthy (py_get l ''email'') \<or> truthy (py_get l ''website'')))"
  by (simp add: validate_lead_def)

lemma save_lead_leads:
  "\<exists>new. leads (snd (save_lead db sid l)) = leads db @ new
     \<and> length new = (if fst (save_lead db sid l) \<noteq> None then 1 else 0)
     \<and> (validate_lead l \<longrightarrow> list_all valid_row new)"
  by (auto simp: save_lead_def Let_def validate_lead_iff valid_row_def py_get_def
      py_get_default_def truthy_def split: option.splits)

lemma bulk_save_leads_leads:
  "\<exists>new. leads (snd (bulk_save_leads db sid ls)) = leads db @ new
     \<and> length new = saved (fst (bulk_save_leads db sid ls))
     \<and> (list_all validate_lead ls \<longrightarrow> list_all valid_row new)"
proof (induction ls arbitrary: db)
  case Nil
  show ?case by (simp add: bulk_save_leads_Nil)
next
  case (Cons l ls)
  obtain n1 where n1: "leads (snd (save_lead db sid l)) = leads db @ n1"
    "length n1 = (if fst (save_lead db sid l) \<noteq> None then 1 else 0)"
    "validate_lead l \<longrightarrow> list_all valid_row n1"
    using save_lead_leads[of db sid l] by blast
  obtain n2 where n2:
    "leads (snd (bulk_save_leads (snd (save_lead db sid l)) sid ls))
       = leads (snd (save_lead db sid l)) @ n2"
    "length n2 = saved (fst (bulk_save_leads (snd (save_lead db sid l)) sid ls))"
    "list_all validate_lead ls \<longrightarrow> list_all valid_row n2"
    using Cons.IH[of "snd (save_lead db sid l)"] by blast
  show ?case
    apply (rule exI[of _ "n1 @ n2"])
    using n1 n2 by (simp add: bulk_save_leads_Cons)
qed

lemma bulk_save_leads_other_tables:
  "sources (snd (bulk_save_leads db sid ls)) = sources db
   \<and> scraper_logs (snd (bulk_save_leads db sid ls)) = scraper_logs db
   \<and> scheduled_jobs (snd (bulk_save_leads db sid ls)) = scheduled_jobs db
   \<and> logs_seq (snd (bulk_save_leads db sid ls)) = logs_seq db"
proof (induction ls arbitrary: db)
  case Nil
  show ?case by (simp add: bulk_save_leads_Nil)
next
  case (Cons l ls)
  show ?case
    using Cons.IH[of "snd (save_lead db sid l)"] save_lead_other_tables[of db sid l]
    by (simp add: bulk_save_leads_Cons)
qed

section \<open>The scraping loop\<close>

lemma flush_point_small: "n < buffer_size \<Longrightarrow> flush_point n = 0"
  by (simp add: flush_point_def)

lemma flush_point_add: "flush_point (buffer_size + n) = buffer_size + flush_point n"
  by (simp add: flush_point_def buffer_size_def)

lemma flush_point_le: "flush_point n \<le> n"
  by (simp add: flush_point_def)

lemma scrape_loop_char:
  "length buf < buffer_size \<Longrightarrow>
   scrape_loop sid ml idx s buf res db =
     (raised ml idx s,
      drop (flush_point (length (buf @ filter validate_lead (processed ml idx s))))
        (buf @ filter validate_lead (processed ml idx s)),
      res\<lparr>leads_scraped := leads_scraped res + length (filter validate_lead (processed ml idx s)),
          leads_saved := leads_saved res + saved (fst (bulk_save_leads db sid
            (take (flush_point (length (buf @ filter validate_lead (processed ml idx s))))
               (buf @ filter validate_lead (processed ml idx s))))),
          run_duplicates := run_duplicates res + duplicates (fst (bulk_save_leads db sid
            (take (flush_point (length (buf @ filter validate_lead (processed ml idx s))))
               (buf @ filter validate_lead (processed ml idx s))))),
          errors := errors res
            @ map invalid_msg (filter (\<lambda>l. \<not> validate_lead l) (processed ml idx s))\<rparr>,
      snd (bulk_save_leads db sid
            (take (flush_point (length (buf @ filter validate_lead (processed ml idx s))))
               (buf @ filter validate_lead (processed ml idx s)))))"
proof (induction s arbitrary: idx buf res db)
  case StopIteration
  then show ?case by (simp add: flush_point_small bulk_save_leads_Nil)
next
  case (Raise e)
  then show ?case by (simp add: flush_point_small bulk_save_leads_Nil)
next
  case (Yield l rest)
  let ?V = "filter validate_lead (processed ml (Suc idx) rest)"
  show ?case
  proof (cases "cap_reached ml idx")
    case True
    with Yield.prems show ?thesis by (simp add: flush_point_small bulk_save_leads_Nil)
  next
    case nocap: False
    show ?thesis
    proof (cases "validate_lead l")
      case False
      show ?thesis
        using nocap False Yield.IH[OF Yield.prems] by simp
    next
      case valid: True
      show ?thesis
      proof (cases "buffer_size \<le> length (buf @ [l])")
        case True
        then have len: "length (buf @ [l]) = buffer_size" using Yield.prems by simp
        have "length (buf @ l # ?V) = buffer_size + length ?V"
          using len by simp
        then have fp: "flush_point (length (buf @ l # ?V)) = buffer_size + flush_point (length ?V)"
          by (simp only: flush_point_add)
        have ap: "buf @ l # ?V = (buf @ [l]) @ ?V" by simp
        have tk: "take (buffer_size + flush_point (length ?V)) (buf @ l # ?V)
                    = (buf @ [l]) @ take (flush_point (length ?V)) ?V"
          unfolding ap len[symmetric] by (simp only: take_append) simp
        have dr: "drop (buffer_size + flush_point (length ?V)) (buf @ l # ?V)
                    = drop (flush_point (length ?V)) ?V"
          unfolding ap len[symmetric] by (simp only: drop_append) simp
        have e: "length ([]::lead list) < buffer_size" by (simp add: buffer_size_def)
        let ?T = "take (flush_point (length ?V)) ?V"
        let ?B = "bulk_save_leads db sid (buf @ [l])"
        have bs: "bulk_save_leads db sid (buf @ l # ?T) =
                    (\<lparr>saved = saved (fst ?B) + saved (fst (bulk_save_leads (snd ?B) sid ?T)),
                      duplicates = duplicates (fst ?B)
                        + duplicates (fst (bulk_save_leads (snd ?B) sid ?T))\<rparr>,
                     snd (bulk_save_leads (snd ?B) sid ?T))"
          using bulk_save_leads_append[of db sid "buf @ [l]" ?T] by simp
        show ?thesis
          using nocap valid True Yield.IH[OF e]
          apply (simp only: scrape_loop.simps processed.simps raised.simps if_True if_False
              filter.simps fp tk dr not_True_eq_False not_False_eq_True)
          apply (simp add: bs add_saved_def split: prod.splits)
          done
      next
        case False
        then have small: "length (buf @ [l]) < buffer_size" by simp
        show ?thesis
          using nocap valid False Yield.IH[OF small] by simp
      qed
    qed
  qed
qed

lemma run_body_char:
  "run_body db sid ml lid s =
     (case raised ml 0 s of
        None \<Rightarrow>
          (\<lparr>success = True,
            leads_scraped = length (filter validate_lead (processed ml 0 s)),
            leads_saved =
              saved (fst (bulk_save_leads db sid (filter validate_lead (processed ml 0 s)))),
            run_duplicates =
              duplicates (fst (bulk_save_leads db sid (filter validate_lead (processed ml 0 s)))),
            errors = map invalid_msg (filter (\<lambda>l. \<not> validate_lead l) (processed ml 0 s))\<rparr>,
           update_scrape_log
             (snd (bulk_save_leads db sid (filter validate_lead (processed ml 0 s)))) lid
             ''success''
             (saved (fst (bulk_save_leads db sid (filter validate_lead (processed ml 0 s)))))
             None)
      | Some e \<Rightarrow>
          (\<lparr>success = False,
            leads_scraped = length (filter validate_lead (processed ml 0 s)),
            leads_saved =
              saved (fst (bulk_save_leads db sid
                (take (flush_point (length (filter validate_lead (processed ml 0 s))))
                   (filter validate_lead (processed ml 0 s))))),
            run_duplicates =
              duplicates (fst (bulk_save_leads db sid
                (take (flush_point (length (filter validate_lead (processed ml 0 s))))
                   (filter validate_lead (processed ml 0 s))))),
            errors = map invalid_msg (filter (\<lambda>l. \<not> validate_lead l) (processed ml 0 s))
                       @ [''Scraping failed: '' @ e]\<rparr>,
           update_scrape_log
             (snd (bulk_save_leads db sid
                (take (flush_point (length (filter validate_lead (processed ml 0 s))))
                   (filter validate_lead (processed ml 0 s))))) lid
             ''failed''
             (saved (fst (bulk_save_leads db sid
                (take (flush_point (length (filter validate_lead (processed ml 0 s))))
                   (filter validate_lead (processed ml 0 s))))))
             (Some (''Scraping failed: '' @ e))))"
proof -
  let ?V = "filter validate_lead (processed ml 0 s)"
  let ?k = "flush_point (length ?V)"
  have e: "length ([]::lead list) < buffer_size" by (simp add: buffer_size_def)
  note loop = scrape_loop_char[OF e, of sid ml 0 s initial_result db, simplified]
  show ?thesis
  proof (cases "raised ml 0 s")
    case (Some x)
    then show ?thesis
      unfolding run_body_def loop by (simp add: initial_result_def)
  next
    case None
    have split: "bulk_save_leads db sid ?V = bulk_save_leads db sid (take ?k ?V @ drop ?k ?V)"
      by simp
    show ?thesis
    proof (cases "drop ?k ?V = []")
      case True
      then have "take ?k ?V = ?V" by (metis append_Nil2 append_take_drop_id)
      with True None show ?thesis
        unfolding run_body_def loop by (simp add: initial_result_def)
    next
      case False
      with None show ?thesis
        unfolding run_body_def loop
        apply (subst (1 2 3 4) split)
        apply (simp only: bulk_save_leads_append)
        apply (simp add: initial_result_def add_saved_def split: prod.splits)
        done
    qed
  qed
qed

section \<open>Evaluating concrete runs\<close>

lemmas demo_defs = demo_registry_def demo_stream_def lead_A1_def lead_B_def lead_bad_def
  demo_db_def demo_source_def demo_lead_row_def

lemmas eval_defs = run_scraper_def run_body_def load_sources_def start_scrape_log_def
  get_scraper_def update_scrape_log_def bulk_save_leads_def save_lead_def next_rowid_def
  py_get_def py_get_default_def validate_lead_def truthy_def cap_reached_def invalid_msg_def
  add_saved_def initial_result_def buffer_size_def unique_conflict_def sql_eq_def Let_def

section \<open>Runs of the engine\<close>

lemma start_scrape_log_tables:
  "sources (snd (start_scrape_log db sid)) = sources db
   \<and> leads (snd (start_scrape_log db sid)) = leads db
   \<and> scheduled_jobs (snd (start_scrape_log db sid)) = scheduled_jobs db
   \<and> leads_seq (snd (start_scrape_log db sid)) = leads_seq db
   \<and> scraper_logs (snd (start_scrape_log db sid)) =
       scraper_logs db @
         [\<lparr>log_id = fst (start_scrape_log db sid), log_source_id = sid, log_status = ''started'',
           log_leads_scraped = 0, log_error_message = None\<rparr>]"
  by (simp add: start_scrape_log_def Let_def)

lemma update_scrape_log_tables:
  "sources (update_scrape_log db lid st n err) = sources db
   \<and> leads (update_scrape_log db lid st n err) = leads db
   \<and> scheduled_jobs (update_scrape_log db lid st n err) = scheduled_jobs db
   \<and> length (scraper_logs (update_scrape_log db lid st n err)) = length (scraper_logs db)"
  by (simp add: update_scrape_log_def)

lemma update_scrape_log_last:
  "scraper_logs db = xs @ [r] \<Longrightarrow> log_id r = lid \<Longrightarrow>
   last (scraper_logs (update_scrape_log db lid st n err))
     = r\<lparr>log_status := st, log_leads_scraped := n, log_error_message := err\<rparr>"
  by (simp add: update_scrape_log_def)

lemma run_scraper_enabled:
  assumes "find (\<lambda>x. src_id x = sid) (sources db) = Some cfg" and "src_enabled cfg"
    and "get_scraper reg cfg = Some s"
  shows "run_scraper reg db sid ml =
           (Result (fst (run_body (snd (start_scrape_log db sid)) sid ml
                      (fst (start_scrape_log db sid)) s)),
            snd (run_body (snd (start_scrape_log db sid)) sid ml
                      (fst (start_scrape_log db sid)) s))"
  using assms by (simp add: run_scraper_def load_sources_def split: prod.splits)

lemma run_scraper_unavailable:
  assumes "find (\<lambda>x. src_id x = sid) (sources db) = Some cfg" and "src_enabled cfg"
    and "get_scraper reg cfg = None"
  shows "run_scraper reg db sid ml =
           (ErrorReturn ''Scraper not available'',
            update_scrape_log (snd (start_scrape_log db sid)) (fst (start_scrape_log db sid))
              ''failed'' 0 (Some ''Scraper not available''))"
  using assms by (simp add: run_scraper_def load_sources_def split: prod.splits)

lemma run_body_logs:
  assumes "scraper_logs db0 = xs @ [r]" and "log_id r = lid"
  shows "length (scraper_logs (snd (run_body db0 sid ml lid s))) = length (scraper_logs db0)
     \<and> last (scraper_logs (snd (run_body db0 sid ml lid s))) =
         r\<lparr>log_status := (if success (fst (run_body db0 sid ml lid s)) then ''success'' else ''failed''),
           log_leads_scraped := leads_saved (fst (run_body db0 sid ml lid s)),
           log_error_message :=
             (case raised ml 0 s of None \<Rightarrow> None | Some e \<Rightarrow> Some (''Scraping failed: '' @ e))\<rparr>"
proof (cases "raised ml 0 s")
  case None
  let ?B = "bulk_save_leads db0 sid (filter validate_lead (processed ml 0 s))"
  have "scraper_logs (snd ?B) = xs @ [r]"
    using assms(1) bulk_save_leads_other_tables[of db0 sid] by simp
  from update_scrape_log_last[OF this assms(2)] None show ?thesis
    by (simp add: run_body_char update_scrape_log_tables bulk_save_leads_other_tables)
next
  case (Some e)
  let ?B = "bulk_save_leads db0 sid
              (take (flush_point (length (filter validate_lead (processed ml 0 s))))
                 (filter validate_lead (processed ml 0 s)))"
  have "scraper_logs (snd ?B) = xs @ [r]"
    using assms(1) bulk_save_leads_other_tables[of db0 sid] by simp
  from update_scrape_log_last[OF this assms(2)] Some show ?thesis
    by (simp add: run_body_char update_scrape_log_tables bulk_save_leads_other_tables)
qed

text \<open>
  Claim C4 as stated fails. Source 2 of the example database exists and is disabled; the run
  returns \<^verbatim>\<open>{'success': False, 'error': 'Source is disabled'}\<close> and the log table is what
  it was: no row was added, and no row has status \<^verbatim>\<open>failed\<close>.
\<close>

theorem run_scraper_disabled_no_log_row:
  "find (\<lambda>x. src_id x = 2) (sources demo_db) = Some (demo_source 2 False)
   \<and> \<not> src_enabled (demo_source 2 False)
   \<and> fst (run_scraper demo_registry demo_db 2 None) = ErrorReturn ''Source is disabled''
   \<and> scraper_logs (snd (run_scraper demo_registry demo_db 2 None)) = scraper_logs demo_db
   \<and> filter (\<lambda>r. log_status r = ''failed'')
        (scraper_logs (snd (run_scraper demo_registry demo_db 2 None))) = []"
  by (simp add: demo_defs eval_defs)

text \<open>
  Claim C4, amended. \<^verbatim>\<open>run_scraper\<close> returns before \<^verbatim>\<open>start_scrape_log\<close> both for a missing
  and for a disabled source: a disabled source gives success false with the error
  \<^verbatim>\<open>Source is disabled\<close> and leaves the database, the log table included, unchanged; a
  missing source gives \<^verbatim>\<open>Source not found\<close>, also with no log row. A log row is created
  exactly when the source exists and is enabled; it is the last row of the table, belongs to
  the source, and ends as \<^verbatim>\<open>success\<close> or \<^verbatim>\<open>failed\<close> as the result does.
\<close>

theorem run_scraper_log_rows:
  "(case find (\<lambda>x. src_id x = sid) (sources db) of
      None \<Rightarrow> run_scraper reg db sid ml = (ErrorReturn ''Source not found'', db)
    | Some cfg \<Rightarrow>
        if src_enabled cfg
        then length (scraper_logs (snd (run_scraper reg db sid ml)))
               = Suc (length (scraper_logs db))
             \<and> log_source_id (last (scraper_logs (snd (run_scraper reg db sid ml)))) = sid
             \<and> log_status (last (scraper_logs (snd (run_scraper reg db sid ml))))
                 = (if ret_success (fst (run_scraper reg db sid ml))
                    then ''success'' else ''failed'')
        else run_scraper reg db sid ml = (ErrorReturn ''Source is disabled'', db)
             \<and> \<not> ret_success (fst (run_scraper reg db sid ml))
             \<and> ret_error (fst (run_scraper reg db sid ml)) = Some ''Source is disabled''
             \<and> scraper_logs (snd (run_scraper reg db sid ml)) = scraper_logs db)"
proof (cases "find (\<lambda>x. src_id x = sid) (sources db)")
  case None
  then show ?thesis by (simp add: run_scraper_def load_sources_def)
next
  case (Some cfg)
  show ?thesis
  proof (cases "src_enabled cfg")
    case False
    with Some show ?thesis
      by (simp add: run_scraper_def load_sources_def ret_success_def ret_error_def)
  next
    case True
    note st = start_scrape_log_tables[of db sid]
    show ?thesis
    proof (cases "get_scraper reg cfg")
      case None
      from st have lg: "scraper_logs (snd (start_scrape_log db sid)) = scraper_logs db @
         [\<lparr>log_id = fst (start_scrape_log db sid), log_source_id = sid, log_status = ''started'',
           log_leads_scraped = 0, log_error_message = None\<rparr>]" by simp
      show ?thesis
        using Some True update_scrape_log_last[OF lg, of "fst (start_scrape_log db sid)"]
        by (simp add: run_scraper_unavailable[OF Some True None] update_scrape_log_tables
            st ret_success_def)
    next
      case (Some s)
      from st have lg: "scraper_logs (snd (start_scrape_log db sid)) = scraper_logs db @
         [\<lparr>log_id = fst (start_scrape_log db sid), log_source_id = sid, log_status = ''started'',
           log_leads_scraped = 0, log_error_message = None\<rparr>]" by simp
      show ?thesis
        using \<open>find (\<lambda>x. src_id x = sid) (sources db) = Some cfg\<close> True
          run_body_logs[OF lg, of "fst (start_scrape_log db sid)" sid ml s]
        by (simp add: run_scraper_enabled[OF \<open>find (\<lambda>x. src_id x = sid) (sources db) = Some cfg\<close> True Some]
            st ret_success_def)
    qed
  qed
qed

theorem run_scraper_log_rows_witness:
  "run_scraper demo_registry demo_db 2 None = (ErrorReturn ''Source is disabled'', demo_db)
   \<and> length (scraper_logs (snd (run_scraper demo_registry demo_db 2 None))) = 2
   \<and> length (scraper_logs demo_db) = 2"
  using run_scraper_log_rows [where sid = 2 and db = demo_db and reg = demo_registry and ml = None]
  by (simp add: demo_db_def demo_source_def)

section \<open>The cap on scraped leads\<close>

lemma scrape_loop_zero:
  "scrape_loop sid (Some 0) idx s buf res db = scrape_loop sid None idx s buf res db"
  by (induction s arbitrary: idx buf res db) (simp_all add: cap_reached_def split: prod.splits)

lemma processed_uncapped:
  "processed (Some 0) idx (foldr Yield ls StopIteration) = ls"
  by (induction ls arbitrary: idx) (simp_all add: cap_reached_def)

lemma raised_uncapped:
  "raised (Some 0) idx (foldr Yield ls StopIteration) = None"
  by (induction ls arbitrary: idx) (simp_all add: cap_reached_def)

lemma run_body_zero: "run_body db sid (Some 0) lid s = run_body db sid None lid s"
  by (simp add: run_body_def scrape_loop_zero)

text \<open>
  Claim C9. A run with \<^verbatim>\<open>max_leads = 0\<close> is the run with no \<^verbatim>\<open>max_leads\<close>: result and
  database are equal for every registry, database and source. No cap is in force: when the
  adapter yields the leads \<open>ls\<close> and stops, the run scrapes every valid lead of \<open>ls\<close>, however
  many there are.
\<close>

theorem run_scraper_zero_uncapped:
  "run_scraper reg db sid (Some 0) = run_scraper reg db sid None
   \<and> leads_scraped (fst (run_body db sid (Some 0) lid (foldr Yield ls StopIteration)))
       = length (filter validate_lead ls)"
proof
  show "run_scraper reg db sid (Some 0) = run_scraper reg db sid None"
    unfolding run_scraper_def run_body_zero by (rule refl)
  show "leads_scraped (fst (run_body db sid (Some 0) lid (foldr Yield ls StopIteration)))
       = length (filter validate_lead ls)"
    by (simp add: run_body_char processed_uncapped raised_uncapped)
qed

lemma processed_cap_length:
  "1 \<le> N \<Longrightarrow> int idx + int (length (processed (Some N) idx s)) \<le> max N (int idx)"
proof (induction s arbitrary: idx)
  case StopIteration
  then show ?case by simp
next
  case (Raise e)
  then show ?case by simp
next
  case (Yield l rest)
  show ?case
  proof (cases "cap_reached (Some N) idx")
    case True
    then show ?thesis by simp
  next
    case False
    then have "int idx < N" using Yield.prems by (simp add: cap_reached_def)
    then have "max N (int (Suc idx)) = N" "max N (int idx) = N" by simp_all
    with Yield.IH[OF Yield.prems, of "Suc idx"] False show ?thesis by simp
  qed
qed

lemma length_filter_split:
  "length (filter P xs) + length (filter (\<lambda>x. \<not> P x) xs) = length xs"
  by (induction xs) simp_all

lemma run_scraper_Result:
  assumes "fst (run_scraper reg db sid ml) = Result res"
  shows "\<exists>cfg s. find (\<lambda>x. src_id x = sid) (sources db) = Some cfg \<and> src_enabled cfg
            \<and> get_scraper reg cfg = Some s
            \<and> res = fst (run_body (snd (start_scrape_log db sid)) sid ml
                          (fst (start_scrape_log db sid)) s)"
  using assms
  by (auto simp: run_scraper_def load_sources_def split: option.splits if_splits prod.splits)

text \<open>
  Claim C2 as stated fails at \<^verbatim>\<open>max_leads = 0\<close>: the example adapter yields four leads, three
  of them valid, and the run reports three scraped leads.
\<close>

theorem run_scraper_cap_zero_not_enforced:
  "fst (run_scraper demo_registry demo_db 1 (Some 0)) =
     Result \<lparr>success = True, leads_scraped = 3, leads_saved = 3, run_duplicates = 0,
       errors = [''Invalid lead skipped: C'']\<rparr>
   \<and> \<not> int (leads_scraped \<lparr>success = True, leads_scraped = 3, leads_saved = 3,
       run_duplicates = 0, errors = [''Invalid lead skipped: C'']\<rparr>) \<le> 0"
  by (simp add: demo_defs eval_defs)

text \<open>
  Claim C2, amended to a cap \<open>N\<close> of at least 1. The result of \<^verbatim>\<open>run_scraper\<close> with
  \<^verbatim>\<open>max_leads = N\<close> never reports more than \<open>N\<close> scraped leads. The loop stops once it has
  taken \<open>N\<close> items from the adapter, valid or not: on a successful run the scraped leads and
  the skipped ones together are at most \<open>N\<close>. The buffer left at that moment is flushed:
  on a successful run every scraped lead was handed to \<^verbatim>\<open>bulk_save_leads\<close>, so the saved
  and the duplicate leads add up to the scraped ones.
\<close>

theorem run_scraper_cap:
  assumes "1 \<le> N" and "fst (run_scraper reg db sid (Some N)) = Result res"
  shows "int (leads_scraped res) \<le> N
     \<and> (success res \<longrightarrow>
          int (leads_scraped res + length (errors res)) \<le> N
          \<and> leads_saved res + run_duplicates res = leads_scraped res)"
proof -
  from run_scraper_Result[OF assms(2)] obtain db0 lid s
    where res: "res = fst (run_body db0 sid (Some N) lid s)" by blast
  let ?P = "processed (Some N) 0 s"
  have len: "int (length ?P) \<le> N"
    using processed_cap_length[OF assms(1), of 0 s] assms(1) by simp
  have split: "length (filter validate_lead ?P) + length (filter (\<lambda>l. \<not> validate_lead l) ?P)
                 = length ?P"
    by (rule length_filter_split)
  show ?thesis
  proof (cases "raised (Some N) 0 s")
    case None
    then show ?thesis
      using len split by (simp add: res run_body_char bulk_save_leads_total)
  next
    case (Some e)
    then show ?thesis
      using len split by (simp add: res run_body_char)
  qed
qed

theorem run_scraper_cap_witness:
  "(1::int) \<le> 2
   \<and> fst (run_scraper demo_registry demo_db 1 (Some 2)) =
       Result \<lparr>success = True, leads_scraped = 1, leads_saved = 1, run_duplicates = 0,
         errors = [''Invalid lead skipped: C'']\<rparr>
   \<and> int (leads_scraped \<lparr>success = True, leads_scraped = 1, leads_saved = 1,
         run_duplicates = 0, errors = [''Invalid lead skipped: C'']\<rparr>) \<le> 2"
proof -
  have r: "fst (run_scraper demo_registry demo_db 1 (Some 2)) =
       Result \<lparr>success = True, leads_scraped = 1, leads_saved = 1, run_duplicates = 0,
         errors = [''Invalid lead skipped: C'']\<rparr>"
    by (simp add: demo_defs eval_defs)
  have n: "(1::int) \<le> 2" by simp
  from run_scraper_cap[OF n r] r show ?thesis by simp
qed

section \<open>Validation during a run\<close>



section \<open>An adapter that raises\<close>

lemma all_new_snoc:
  "all_new rows ls \<Longrightarrow> \<not> list_ex (\<lambda>l'. lead_conflicts_row l' r) ls \<Longrightarrow> all_new (rows @ [r]) ls"
  by (induction ls) auto

lemma all_new_step:
  assumes "all_new (leads db) (l # ls)"
  shows "fst (save_lead db sid l) \<noteq> None \<and> all_new (leads (snd (save_lead db sid l))) ls"
proof -
  from assms obtain bn where bn: "py_get_default l ''business_name'' [] = Some bn" by auto
  from assms bn have nc:
    "\<not> list_ex (unique_conflict bn (py_get l ''city'') (py_get l ''phone'')) (leads db)"
    by (auto simp: lead_conflicts_row_def list_ex_iff)
  let ?row = "\<lparr>lead_id = next_rowid (leads_seq db) (map lead_id (leads db)),
                lead_source_id = sid, business_name = bn,
                city = py_get l ''city'', state = py_get l ''state'',
                phone = py_get l ''phone'', email = py_get l ''email'',
                website = py_get l ''website'', address = py_get l ''address'',
                category = py_get l ''category''\<rparr>"
  have sl: "save_lead db sid l =
              (Some (next_rowid (leads_seq db) (map lead_id (leads db))),
               db\<lparr>leads := leads db @ [?row],
                  leads_seq := next_rowid (leads_seq db) (map lead_id (leads db))\<rparr>)"
    using bn nc by (simp add: save_lead_def Let_def)
  have "\<not> list_ex (\<lambda>l'. lead_conflicts_row l' ?row) ls"
  proof
    assume "list_ex (\<lambda>l'. lead_conflicts_row l' ?row) ls"
    then obtain l' where l': "l' \<in> set ls" "lead_conflicts_row l' ?row"
      by (auto simp: list_ex_iff)
    then have "key_conflict l l'"
      using bn
      by (auto simp: lead_conflicts_row_def key_conflict_def unique_conflict_def
          split: option.splits)
    with l'(1) assms show False by (auto simp: list_ex_iff)
  qed
  with assms have "all_new (leads db @ [?row]) ls" by (simp add: all_new_snoc)
  then show ?thesis by (simp add: sl)
qed

lemma all_new_saved:
  "all_new (leads db) ls \<Longrightarrow> saved (fst (bulk_save_leads db sid ls)) = length ls"
proof (induction ls arbitrary: db)
  case Nil
  show ?case by (simp add: bulk_save_leads_Nil)
next
  case (Cons l ls)
  from all_new_step[OF Cons.prems, of sid]
  have 1: "fst (save_lead db sid l) \<noteq> None"
    and 2: "all_new (leads (snd (save_lead db sid l))) ls" by simp_all
  from Cons.IH[OF 2] 1 show ?case by (simp add: bulk_save_leads_Cons)
qed

lemma processed_raising: "processed None idx (raising_stream ls) = ls"
  by (induction ls arbitrary: idx) (simp_all add: raising_stream_def cap_reached_def)

lemma raised_raising: "raised None idx (raising_stream ls) = Some ''boom''"
  by (induction ls arbitrary: idx) (simp_all add: raising_stream_def cap_reached_def)

text \<open>
  Claim C5 as stated fails in its scenario. The adapter yields 60 valid leads and raises; the
  60 leads are the same lead, with a city and a phone. The buffer of 50 is flushed once, the
  first lead is saved and the other 49 of the flush are duplicates: the result reports
  one saved lead, not 50.
\<close>

theorem run_scraper_raise_after_duplicates:
  "list_all validate_lead (replicate 60 lead_X)
   \<and> raised None 0 (raising_stream (replicate 60 lead_X)) = Some ''boom''
   \<and> fst (run_scraper (raising_registry (replicate 60 lead_X)) demo_db 1 None) =
       Result \<lparr>success = False, leads_scraped = 60, leads_saved = 1, run_duplicates = 49,
         errors = [''Scraping failed: boom'']\<rparr>"
  by code_simp

text \<open>
  Claim C5, amended. When the adapter raises during the iteration of a run on an enabled
  source, the run returns a result with success false, the error list ends with the
  exception's message, and the saved count is the number of rows the run added to the lead
  table, so every lead saved before the failure is reported. The log row of the run is
  closed as \<^verbatim>\<open>failed\<close> with that saved count and the message. The leads handed to storage
  are the full buffers flushed before the exception: saved and duplicate leads add up to the
  largest multiple of 50 below or at the scraped count (50 for 60 valid leads), and the
  saved count is that number when those leads are all new to the table.
\<close>

theorem run_scraper_adapter_raises:
  assumes "find (\<lambda>x. src_id x = sid) (sources db) = Some cfg" and "src_enabled cfg"
    and "get_scraper reg cfg = Some s"
    and "raised ml 0 s = Some e"
    and "run_scraper reg db sid ml = (ret, db')"
  shows "\<exists>res. ret = Result res
     \<and> \<not> success res
     \<and> errors res = map invalid_msg (filter (\<lambda>l. \<not> validate_lead l) (processed ml 0 s))
         @ [''Scraping failed: '' @ e]
     \<and> leads_scraped res = length (filter validate_lead (processed ml 0 s))
     \<and> length (leads db') = length (leads db) + leads_saved res
     \<and> leads_saved res + run_duplicates res = flush_point (leads_scraped res)
     \<and> (all_new (leads db)
           (take (flush_point (leads_scraped res)) (filter validate_lead (processed ml 0 s)))
         \<longrightarrow> leads_saved res = flush_point (leads_scraped res))
     \<and> length (scraper_logs db') = Suc (length (scraper_logs db))
     \<and> last (scraper_logs db') =
         \<lparr>log_id = next_rowid (logs_seq db) (map log_id (scraper_logs db)),
          log_source_id = sid, log_status = ''failed'',
          log_leads_scraped = leads_saved res,
          log_error_message = Some (''Scraping failed: '' @ e)\<rparr>"
proof -
  let ?db0 = "snd (start_scrape_log db sid)"
  let ?lid = "fst (start_scrape_log db sid)"
  let ?V = "filter validate_lead (processed ml 0 s)"
  let ?T = "take (flush_point (length ?V)) ?V"
  let ?B = "bulk_save_leads ?db0 sid ?T"
  let ?res = "fst (run_body ?db0 sid ml ?lid s)"
  have ret: "ret = Result ?res" and db': "db' = snd (run_body ?db0 sid ml ?lid s)"
    using run_scraper_enabled[OF assms(1-3), of ml] assms(5) by simp_all
  note st = start_scrape_log_tables[of db sid]
  have lid: "?lid = next_rowid (logs_seq db) (map log_id (scraper_logs db))"
    by (simp add: start_scrape_log_def Let_def)
  have res: "success ?res = False" "leads_scraped ?res = length ?V"
    "leads_saved ?res = saved (fst ?B)" "run_duplicates ?res = duplicates (fst ?B)"
    "errors ?res = map invalid_msg (filter (\<lambda>l. \<not> validate_lead l) (processed ml 0 s))
         @ [''Scraping failed: '' @ e]"
    using assms(4) by (simp_all add: run_body_char)
  obtain new where new: "leads (snd ?B) = leads ?db0 @ new" "length new = saved (fst ?B)"
    using bulk_save_leads_leads[of ?db0 sid ?T] by blast
  have leads': "leads db' = leads (snd ?B)"
    unfolding db' using assms(4) by (simp add: run_body_char update_scrape_log_tables)
  have len_leads: "length (leads db') = length (leads db) + leads_saved ?res"
    using new st by (simp add: leads' res)
  have total: "leads_saved ?res + run_duplicates ?res = flush_point (leads_scraped ?res)"
    using bulk_save_leads_total[of ?db0 sid ?T] flush_point_le[of "length ?V"]
    by (simp add: res)
  have fresh: "all_new (leads db) ?T \<longrightarrow> leads_saved ?res = flush_point (leads_scraped ?res)"
  proof
    assume "all_new (leads db) ?T"
    then have "all_new (leads ?db0) ?T" using st by simp
    from all_new_saved[OF this, of sid] flush_point_le[of "length ?V"]
    show "leads_saved ?res = flush_point (leads_scraped ?res)" by (simp add: res)
  qed
  from st have lg: "scraper_logs ?db0 = scraper_logs db @
         [\<lparr>log_id = ?lid, log_source_id = sid, log_status = ''started'',
           log_leads_scraped = 0, log_error_message = None\<rparr>]" by simp
  have logs: "length (scraper_logs db') = Suc (length (scraper_logs db))"
    "last (scraper_logs db') =
         \<lparr>log_id = ?lid, log_source_id = sid, log_status = ''failed'',
          log_leads_scraped = leads_saved ?res,
          log_error_message = Some (''Scraping failed: '' @ e)\<rparr>"
    using run_body_logs[OF lg, of ?lid sid ml s] assms(4) lg
    by (simp_all add: db' res)
  show ?thesis
    apply (rule exI[of _ ?res])
    using ret res(1,2,5) len_leads total fresh logs by (simp add: lid)
qed

theorem run_scraper_adapter_raises_witness:
  "find (\<lambda>x. src_id x = 1) (sources demo_db) = Some (demo_source 1 True)
   \<and> src_enabled (demo_source 1 True)
   \<and> get_scraper (raising_registry fresh_leads) (demo_source 1 True)
       = Some (raising_stream fresh_leads)
   \<and> raised None 0 (raising_stream fresh_leads) = Some ''boom''
   \<and> length (filter validate_lead (processed None 0 (raising_stream fresh_leads))) = 60
   \<and> all_new (leads demo_db) (take 50 fresh_leads)
   \<and> (\<exists>res. fst (run_scraper (raising_registry fresh_leads) demo_db 1 None) = Result res
         \<and> \<not> success res \<and> leads_saved res = 50 \<and> run_duplicates res = 0
         \<and> errors res = [''Scraping failed: boom''])
   \<and> log_status (last (scraper_logs
         (snd (run_scraper (raising_registry fresh_leads) demo_db 1 None)))) = ''failed''
   \<and> log_leads_scraped (last (scraper_logs
         (snd (run_scraper (raising_registry fresh_leads) demo_db 1 None)))) = 50"
proof -
  have h1: "find (\<lambda>x. src_id x = 1) (sources demo_db) = Some (demo_source 1 True)"
    by (simp add: demo_db_def demo_source_def)
  have h2: "src_enabled (demo_source 1 True)" by (simp add: demo_source_def)
  have h3: "get_scraper (raising_registry fresh_leads) (demo_source 1 True)
              = Some (raising_stream fresh_leads)"
    by (simp add: get_scraper_def raising_registry_def demo_source_def)
  have h4: "raised None 0 (raising_stream fresh_leads) = Some ''boom''"
    by (rule raised_raising)
  have h5: "run_scraper (raising_registry fresh_leads) demo_db 1 None =
              (fst (run_scraper (raising_registry fresh_leads) demo_db 1 None),
               snd (run_scraper (raising_registry fresh_leads) demo_db 1 None))" by simp
  have valid: "filter validate_lead fresh_leads = fresh_leads"
    by (simp add: fresh_leads_def validate_lead_def numbered_lead_def py_get_def truthy_def)
  have invalid: "filter (\<lambda>l. \<not> validate_lead l) fresh_leads = []"
    by (simp add: fresh_leads_def validate_lead_def numbered_lead_def py_get_def truthy_def)
  have len: "length fresh_leads = 60" by (simp add: fresh_leads_def)
  have fp: "flush_point 60 = 50" by (simp add: flush_point_def buffer_size_def)
  have new: "all_new (leads demo_db) (take 50 fresh_leads)" by code_simp
  from run_scraper_adapter_raises[OF h1 h2 h3 h4 h5] h1 h2 h3 h4 new
  show ?thesis
    by (auto simp: processed_raising valid invalid len fp)
qed

section \<open>No validation in the storage layer\<close>

text \<open>
  Claim C10 as stated fails for a lead saved before. The lead \<^verbatim>\<open>{'city': 'X', 'phone': '1'}\<close>
  has no \<^verbatim>\<open>business_name\<close> key: the first save into an empty database stores it under the
  empty name and returns id 1; the second save meets the unique index on
  \<^verbatim>\<open>('', 'X', '1')\<close>, returns \<^verbatim>\<open>None\<close> and inserts no row.
\<close>

theorem save_lead_no_business_name_duplicate:
  "lead_noname ''business_name'' = None
   \<and> fst (save_lead empty_db 1 lead_noname) = Some 1
   \<and> business_name (last (leads (snd (save_lead empty_db 1 lead_noname)))) = []
   \<and> fst (save_lead (snd (save_lead empty_db 1 lead_noname)) 1 lead_noname) = None
   \<and> leads (snd (save_lead (snd (save_lead empty_db 1 lead_noname)) 1 lead_noname))
       = leads (snd (save_lead empty_db 1 lead_noname))"
  by (simp add: save_lead_def empty_db_def lead_noname_def py_get_def py_get_default_def
      next_rowid_def unique_conflict_def sql_eq_def Let_def)

text \<open>
  Claim C10, amended. \<^verbatim>\<open>save_lead\<close> validates nothing; only the constraints of the table
  decide. A lead with no \<^verbatim>\<open>business_name\<close> key (which \<^verbatim>\<open>validate_lead\<close> rejects) is bound
  with the empty string as its name. For every lead whose name is bound to a string \<open>bn\<close>,
  with or without contact fields, the save returns \<^verbatim>\<open>None\<close> exactly when a stored row has
  the name \<open>bn\<close> and the lead's city and phone, both not \<^verbatim>\<open>NULL\<close>, and then the lead table is
  unchanged; otherwise it returns an id no stored row has and appends the row with the name
  \<open>bn\<close> and the lead's fields. So a lead with no phone, or no city, is always inserted, and
  two leads with the same name, city and phone are accepted or ignored alike, whatever
  their other fields. The one lead the table refuses for a field of its own is a lead whose
  \<^verbatim>\<open>business_name\<close> key holds \<^verbatim>\<open>None\<close>.
\<close>

theorem save_lead_no_validation:
  "(lead_data ''business_name'' = None \<longrightarrow>
      py_get_default lead_data ''business_name'' [] = Some [] \<and> \<not> validate_lead lead_data)
   \<and> (py_get_default lead_data ''business_name'' [] = Some bn \<longrightarrow>
        (fst (save_lead db sid lead_data) = None)
          = list_ex (unique_conflict bn (py_get lead_data ''city'') (py_get lead_data ''phone''))
              (leads db)
        \<and> (if list_ex
                 (unique_conflict bn (py_get lead_data ''city'') (py_get lead_data ''phone''))
                 (leads db)
            then leads (snd (save_lead db sid lead_data)) = leads db
            else fst (save_lead db sid lead_data)
                   = Some (next_rowid (leads_seq db) (map lead_id (leads db)))
                 \<and> next_rowid (leads_seq db) (map lead_id (leads db))
                     \<notin> set (map lead_id (leads db))
                 \<and> leads (snd (save_lead db sid lead_data)) =
                     leads db @
                       [\<lparr>lead_id = next_rowid (leads_seq db) (map lead_id (leads db)),
                         lead_source_id = sid, business_name = bn,
                         city = py_get lead_data ''city'', state = py_get lead_data ''state'',
                         phone = py_get lead_data ''phone'', email = py_get lead_data ''email'',
                         website = py_get lead_data ''website'',
                         address = py_get lead_data ''address'',
                         category = py_get lead_data ''category''\<rparr>])
        \<and> (py_get lead_data ''phone'' = None \<or> py_get lead_data ''city'' = None
             \<longrightarrow> fst (save_lead db sid lead_data) \<noteq> None))
   \<and> (other ''business_name'' = lead_data ''business_name''
        \<and> other ''city'' = lead_data ''city'' \<and> other ''phone'' = lead_data ''phone''
        \<longrightarrow> (fst (save_lead db sid other) = None) = (fst (save_lead db sid lead_data) = None))
   \<and> (null_named ''business_name'' = Some None \<longrightarrow>
        fst (save_lead db sid null_named) = None
        \<and> leads (snd (save_lead db sid null_named)) = leads db)"
proof -
  have nul: "py_get lead_data ''phone'' = None \<or> py_get lead_data ''city'' = None
          \<Longrightarrow> \<not> list_ex (unique_conflict bn (py_get lead_data ''city'') (py_get lead_data ''phone''))
              (leads db)"
    by (auto simp: list_ex_iff unique_conflict_def sql_eq_def split: option.splits)
  have 1: "lead_data ''business_name'' = None \<longrightarrow>
      py_get_default lead_data ''business_name'' [] = Some [] \<and> \<not> validate_lead lead_data"
    by (simp add: py_get_default_def validate_lead_def py_get_def truthy_def)
  have 2: "py_get_default lead_data ''business_name'' [] = Some bn \<longrightarrow>
        (fst (save_lead db sid lead_data) = None)
          = list_ex (unique_conflict bn (py_get lead_data ''city'') (py_get lead_data ''phone''))
              (leads db)
        \<and> (if list_ex
                 (unique_conflict bn (py_get lead_data ''city'') (py_get lead_data ''phone''))
                 (leads db)
            then leads (snd (save_lead db sid lead_data)) = leads db
            else fst (save_lead db sid lead_data)
                   = Some (next_rowid (leads_seq db) (map lead_id (leads db)))
                 \<and> next_rowid (leads_seq db) (map lead_id (leads db))
                     \<notin> set (map lead_id (leads db))
                 \<and> leads (snd (save_lead db sid lead_data)) =
                     leads db @
                       [\<lparr>lead_id = next_rowid (leads_seq db) (map lead_id (leads db)),
                         lead_source_id = sid, business_name = bn,
                         city = py_get lead_data ''city'', state = py_get lead_data ''state'',
                         phone = py_get lead_data ''phone'', email = py_get lead_data ''email'',
                         website = py_get lead_data ''website'',
                         address = py_get lead_data ''address'',
                         category = py_get lead_data ''category''\<rparr>])
        \<and> (py_get lead_data ''phone'' = None \<or> py_get lead_data ''city'' = None
             \<longrightarrow> fst (save_lead db sid lead_data) \<noteq> None)"
    using nul next_rowid_fresh[of "leads_seq db" "map lead_id (leads db)"]
    by (auto simp: save_lead_def Let_def)
  have 3: "other ''business_name'' = lead_data ''business_name''
        \<and> other ''city'' = lead_data ''city'' \<and> other ''phone'' = lead_data ''phone''
        \<longrightarrow> (fst (save_lead db sid other) = None) = (fst (save_lead db sid lead_data) = None)"
    by (simp add: save_lead_def Let_def py_get_def py_get_default_def split: option.splits)
  have 4: "null_named ''business_name'' = Some None \<longrightarrow>
        fst (save_lead db sid null_named) = None
        \<and> leads (snd (save_lead db sid null_named)) = leads db"
    by (simp add: save_lead_def Let_def py_get_default_def)
  from 1 2 3 4 show ?thesis by blast
qed

theorem save_lead_no_validation_witness:
  "lead_B_noname ''business_name'' = None
   \<and> py_get lead_B_noname ''phone'' = None
   \<and> \<not> validate_lead lead_B_noname
   \<and> fst (save_lead demo_db 1 lead_B_noname) = Some 4
   \<and> business_name (last (leads (snd (save_lead demo_db 1 lead_B_noname)))) = []
   \<and> py_get_default lead_bad ''business_name'' [] = Some ''C''
   \<and> py_get lead_bad ''phone'' = None
   \<and> \<not> validate_lead lead_bad
   \<and> fst (save_lead demo_db 1 lead_bad) = Some 4
   \<and> business_name (last (leads (snd (save_lead demo_db 1 lead_bad)))) = ''C''
   \<and> lead_null_name ''business_name'' = Some None
   \<and> fst (save_lead demo_db 1 lead_null_name) = None"
proof -
  have h: "lead_B_noname ''business_name'' = None" by (simp add: lead_B_noname_def)
  have hb: "py_get_default lead_B_noname ''business_name'' [] = Some []"
    by (simp add: lead_B_noname_def py_get_default_def)
  have p: "py_get lead_B_noname ''phone'' = None" by (simp add: lead_B_noname_def py_get_def)
  have c: "\<not> list_ex (unique_conflict [] (py_get lead_B_noname ''city'')
                 (py_get lead_B_noname ''phone'')) (leads demo_db)"
    by (simp add: p unique_conflict_def sql_eq_def demo_db_def demo_lead_row_def)
  have g: "py_get_default lead_bad ''business_name'' [] = Some ''C''"
    by (simp add: lead_bad_def py_get_default_def)
  have q: "py_get lead_bad ''phone'' = None" by (simp add: lead_bad_def py_get_def)
  have d: "\<not> list_ex (unique_conflict ''C'' (py_get lead_bad ''city'')
                 (py_get lead_bad ''phone'')) (leads demo_db)"
    by (simp add: q unique_conflict_def sql_eq_def demo_db_def demo_lead_row_def)
  have v: "\<not> validate_lead lead_bad"
    by (simp add: validate_lead_def lead_bad_def py_get_def truthy_def)
  have z: "lead_null_name ''business_name'' = Some None" by (simp add: lead_null_name_def)
  have same: "lead_B_noname ''business_name'' = lead_B_noname ''business_name''
        \<and> lead_B_noname ''city'' = lead_B_noname ''city''
        \<and> lead_B_noname ''phone'' = lead_B_noname ''phone''" by simp
  have n: "next_rowid (leads_seq demo_db) (map lead_id (leads demo_db)) = 4"
    by (simp add: next_rowid_def demo_db_def demo_lead_row_def)
  from save_lead_no_validation[where lead_data = lead_B_noname and db = demo_db and sid = 1
      and bn = "[]" and other = lead_B_noname and null_named = lead_null_name]
    save_lead_no_validation[where lead_data = lead_bad and db = demo_db and sid = 1
      and bn = "''C''" and other = lead_bad and null_named = lead_null_name]
    h hb p c g q d v z
  show ?thesis
    by (simp add: n)
qed

section \<open>Parsing a listing element\<close>

text \<open>
  Claim C7 as stated fails for \<^verbatim>\<open>ExampleDirectScraper\<close>. On an element where no selector
  finds anything the business name cannot be extracted, yet \<^verbatim>\<open>parse_lead\<close> returns a lead,
  with \<^verbatim>\<open>business_name\<close> set to \<^verbatim>\<open>None\<close>; the element is not discarded.
\<close>

theorem example_parse_lead_keeps_nameless_element:
  "extract_text empty_element (map_of demo_selectors ''business_name'') = None
   \<and> example_parse_lead demo_selectors empty_element \<noteq> None
   \<and> map_option (\<lambda>l. l ''business_name'') (example_parse_lead demo_selectors empty_element)
       = Some (Some None)"
  by (simp add: example_parse_lead_def extract_text_def extract_attr_def empty_element_def
      demo_selectors_def)

text \<open>
  Claim C7, amended. \<^verbatim>\<open>ExampleDirectScraper.parse_lead\<close> always returns a lead with its eight
  fields, the business name among them, each the result of its extraction; an extraction
  gives \<^verbatim>\<open>None\<close> when the selector is missing or empty and when the lookup raises or finds
  nothing. \<^verbatim>\<open>YellowPagesProScraper.parse_lead\<close> discards the element (returns \<^verbatim>\<open>None\<close>) when
  no business-name element is found, and when any of its four lookups raises; otherwise it
  returns a lead with the name's text, and with \<^verbatim>\<open>None\<close> for a phone, city or state whose
  element is not found.
\<close>

theorem parse_lead_fields:
  "(\<exists>l. example_parse_lead selectors element = Some l
        \<and> l ''business_name'' = Some (extract_text element (map_of selectors ''business_name''))
        \<and> l ''phone'' = Some (extract_text element (map_of selectors ''phone''))
        \<and> l ''email'' = Some (extract_text element (map_of selectors ''email''))
        \<and> l ''website'' = Some (extract_attr element (map_of selectors ''website'') ''href'')
        \<and> l ''address'' = Some (extract_text element (map_of selectors ''address''))
        \<and> l ''city'' = Some (extract_text element (map_of selectors ''city''))
        \<and> l ''state'' = Some (extract_text element (map_of selectors ''state''))
        \<and> l ''category'' = Some (extract_text element (map_of selectors ''category'')))
   \<and> (map_of selectors missing = None \<or> map_of selectors missing = Some []
        \<longrightarrow> extract_text element (map_of selectors missing) = None
            \<and> extract_attr element (map_of selectors missing) a = None)
   \<and> (map_of selectors failing = Some sel \<and> (element sel = SelectRaises \<or> element sel = NotFound)
        \<longrightarrow> extract_text element (map_of selectors failing) = None
            \<and> extract_attr element (map_of selectors failing) a = None)
   \<and> (nameless ''.business-name, h2.business-name, h2 a'' = NotFound
        \<longrightarrow> yellowpages_parse_lead nameless = None)
   \<and> (broken ''.business-name, h2.business-name, h2 a'' = SelectRaises
          \<or> broken ''.phones, .phone'' = SelectRaises
          \<or> broken ''.locality'' = SelectRaises
          \<or> broken ''.region'' = SelectRaises
        \<longrightarrow> yellowpages_parse_lead broken = None)
   \<and> (element ''.business-name, h2.business-name, h2 a'' = Found t
        \<and> element ''.phones, .phone'' \<noteq> SelectRaises
        \<and> element ''.locality'' \<noteq> SelectRaises
        \<and> element ''.region'' \<noteq> SelectRaises
        \<longrightarrow> (\<exists>l. yellowpages_parse_lead element = Some l
               \<and> l ''business_name'' = Some (Some (get_text t))
               \<and> l ''phone'' = Some (text_or_none (element ''.phones, .phone''))
               \<and> l ''city'' = Some (text_or_none (element ''.locality''))
               \<and> l ''state'' = Some (text_or_none (element ''.region''))
               \<and> l ''category'' = Some (Some ''Yellow Pages''))
            \<and> text_or_none NotFound = None)"
  by (auto simp: example_parse_lead_def yellowpages_parse_lead_def extract_text_def
      extract_attr_def text_or_none_def split: select_result.splits)

theorem parse_lead_fields_witness:
  "map_of demo_selectors ''website'' = None
   \<and> map_of demo_selectors ''phone'' = Some ''.bad[''
   \<and> named_element ''.bad['' = SelectRaises
   \<and> empty_element ''.business-name, h2.business-name, h2 a'' = NotFound
   \<and> raising_element ''.locality'' = SelectRaises
   \<and> named_element ''.business-name, h2.business-name, h2 a'' = Found name_tag
   \<and> named_element ''.phones, .phone'' = NotFound
   \<and> named_element ''.locality'' = NotFound
   \<and> named_element ''.region'' = NotFound
   \<and> (\<exists>l. example_parse_lead demo_selectors named_element = Some l
          \<and> l ''business_name'' = Some (Some ''Acme'')
          \<and> l ''phone'' = Some None \<and> l ''website'' = Some None)
   \<and> yellowpages_parse_lead empty_element = None
   \<and> yellowpages_parse_lead raising_element = None
   \<and> (\<exists>l. yellowpages_parse_lead named_element = Some l
          \<and> l ''business_name'' = Some (Some ''Acme'')
          \<and> l ''phone'' = Some None \<and> l ''city'' = Some None \<and> l ''state'' = Some None)"
proof -
  have h: "map_of demo_selectors ''website'' = None"
    "map_of demo_selectors ''phone'' = Some ''.bad[''"
    "map_of demo_selectors ''business_name'' = Some ''.name''"
    by (simp_all add: demo_selectors_def)
  have e: "named_element ''.bad['' = SelectRaises"
    "named_element ''.name'' = Found name_tag"
    "empty_element ''.business-name, h2.business-name, h2 a'' = NotFound"
    "raising_element ''.locality'' = SelectRaises"
    "named_element ''.business-name, h2.business-name, h2 a'' = Found name_tag"
    "named_element ''.phones, .phone'' = NotFound"
    "named_element ''.locality'' = NotFound"
    "named_element ''.region'' = NotFound"
    by (simp_all add: named_element_def empty_element_def raising_element_def)
  have x: "extract_text named_element (Some ''.name'') = Some ''Acme''"
    by (simp add: extract_text_def e name_tag_def)
  from parse_lead_fields[where selectors = demo_selectors and element = named_element
      and missing = "''website''" and failing = "''phone''" and sel = "''.bad[''"
      and a = "''href''" and nameless = empty_element and broken = raising_element
      and t = name_tag] h e
  show ?thesis
    by (auto simp: x text_or_none_def name_tag_def)
qed

section \<open>Rate limiting after a fetch\<close>

text \<open>
  Claim C8 as stated fails on the proxy-rotating path. For a source whose
  \<^verbatim>\<open>rate_limit_delay\<close> is 3 the jittered delay is at most 5, whatever is drawn; a successful
  fetch of \<^verbatim>\<open>YellowPagesProScraper\<close> sleeps the value drawn from \<open>[3, 7]\<close>, here 6.
\<close>

theorem rotation_sleep_ignores_rate_limit_delay:
  "make_request_with_rotation (\<lambda>attempt. True) (\<lambda>attempt. StatusCode 200 ''page'') 6 False 1 []
     = (Some ''page'', [6])
   \<and> (3::real) \<le> 6 \<and> (6::real) \<le> 7
   \<and> max 2 (min 7 (src_rate_limit_delay (demo_source 1 True) + 2)) = 5
   \<and> (5::real) < 6"
  by (simp add: demo_source_def)

text \<open>
  Claim C8, amended. With a draw \<open>u\<close> from \<open>[-1, 2]\<close> and bounds \<open>min_delay \<le> max_delay\<close>,
  \<^verbatim>\<open>jitter_delay\<close> is \<open>base_delay + u\<close> clamped to the bounds: it lies between them, and
  between the clamped \<open>base_delay - 1\<close> and \<open>base_delay + 2\<close>. \<^verbatim>\<open>BaseScraper._make_request\<close>
  sleeps exactly once after a successful fetch, for the jittered \<^verbatim>\<open>rate_limit_delay\<close> of the
  source's configuration with the bounds 2 and 7, and does not sleep after a failed one.
  The proxy-rotating path is different: after a response with status 200 it sleeps the
  value drawn from \<open>[3, 7]\<close>, which does not depend on the source.
\<close>

theorem jitter_delay_bounds:
  assumes "- 1 \<le> u" and "u \<le> 2" and "min_delay \<le> max_delay"
    and "outcome attempt = StatusCode 200 page" and "attempt \<le> 5"
    and "(current_proxy \<and> attempt \<le> 1) \<or> proxy_found attempt"
  shows "jitter_delay base_delay min_delay max_delay u
           = max min_delay (min max_delay (base_delay + u))
     \<and> min_delay \<le> jitter_delay base_delay min_delay max_delay u
     \<and> jitter_delay base_delay min_delay max_delay u \<le> max_delay
     \<and> max min_delay (min max_delay (base_delay - 1))
          \<le> jitter_delay base_delay min_delay max_delay u
     \<and> jitter_delay base_delay min_delay max_delay u
          \<le> max min_delay (min max_delay (base_delay + 2))
     \<and> make_request config (Response body) u sleeps
          = (Some body, sleeps @ [jitter_delay (src_rate_limit_delay config) 2 7 u])
     \<and> 2 \<le> last (snd (make_request config (Response body) u sleeps))
     \<and> last (snd (make_request config (Response body) u sleeps)) \<le> 7
     \<and> make_request config (RequestException msg) u sleeps = (None, sleeps)
     \<and> make_request_with_rotation proxy_found outcome draw current_proxy attempt sleeps
          = (Some page, sleeps @ [draw])"
  using assms by (auto simp: jitter_delay_def make_request_def smart_sleep_def)

theorem jitter_delay_bounds_witness:
  "- 1 \<le> (1::real) \<and> (1::real) \<le> 2 \<and> (2::real) \<le> 7
   \<and> (1::nat) \<le> 5
   \<and> src_rate_limit_delay (demo_source 1 True) = 3
   \<and> jitter_delay 3 2 7 1 = 4
   \<and> jitter_delay 9 2 7 1 = 7
   \<and> make_request (demo_source 1 True) (Response ''page'') 1 [] = (Some ''page'', [4])
   \<and> make_request (demo_source 1 True) (RequestException ''timeout'') 1 [] = (None, [])
   \<and> make_request_with_rotation (\<lambda>attempt. True) (\<lambda>attempt. StatusCode 200 ''page'') 6 False 1 []
        = (Some ''page'', [6])"
proof -
  have h: "- 1 \<le> (1::real)" "(1::real) \<le> 2" "(2::real) \<le> 7" by simp_all
  have o: "(\<lambda>attempt::nat. StatusCode 200 ''page'') 1 = StatusCode 200 ''page''" by simp
  have a: "(1::nat) \<le> 5" by simp
  have p: "(False \<and> (1::nat) \<le> 1) \<or> (\<lambda>attempt::nat. True) 1" by simp
  from jitter_delay_bounds[where u = 1 and min_delay = 2 and max_delay = 7 and base_delay = 3
      and outcome = "\<lambda>attempt. StatusCode 200 ''page''" and attempt = 1 and page = "''page''"
      and current_proxy = False and proxy_found = "\<lambda>attempt. True"
      and config = "demo_source 1 True" and body = "''page''" and sleeps = "[]"
      and msg = "''timeout''" and draw = 6, OF h o a p]
    jitter_delay_bounds[where u = 1 and min_delay = 2 and max_delay = 7 and base_delay = 9
      and outcome = "\<lambda>attempt. StatusCode 200 ''page''" and attempt = 1 and page = "''page''"
      and current_proxy = False and proxy_found = "\<lambda>attempt. True"
      and config = "demo_source 1 True" and body = "''page''" and sleeps = "[]"
      and msg = "''timeout''" and draw = 6, OF h o a p]
  show ?thesis by (simp add: demo_source_def)
qed

end
